theory Spec2Isabelle
  imports Main "HOL-Library.Word" "HOL-Library.FSet" "HOL-Library.Monad_Syntax"
begin

unbundle bit_operations_syntax

section \<open>The SMT term layer\<close>

text \<open>
  Modelled from the spec: \<^verbatim>\<open>smt/expr.h\<close> (class \<^verbatim>\<open>expr\<close>) is not among the sources; only
  its uses are. Section 4.1 of the specification describes it as a purely functional term
  algebra over booleans and bit-vectors, so a term is a value of the datatype below and
  every operation of the C++ interface builds one node. \<^verbatim>\<open>expr()\<close>, the default
  constructed term, is \<open>Invalid\<close>.
\<close>

datatype expr =
    Invalid
  | BoolConst bool
  | BVVar string nat
  | BVConst nat nat
  | LNot expr
  | LAnd expr expr
  | LOr expr expr
  | Equals expr expr
  | BVule expr expr
  | BVadd expr expr
  | BVsub expr expr
  | BVsdiv expr expr
  | BVudiv expr expr
  | Forall "expr fset" expr

text \<open>\<^verbatim>\<open>expr::mkVar(name, bits)\<close>: a free bit-vector symbol.\<close>

definition mkVar :: "string \<Rightarrow> nat \<Rightarrow> expr" where
  "mkVar nm w = BVVar nm w"

text \<open>\<^verbatim>\<open>expr::mkUInt(n, bits)\<close>: the numeral \<open>n\<close> reduced to \<open>bits\<close> bits.\<close>

definition mkUInt :: "nat \<Rightarrow> nat \<Rightarrow> expr" where
  "mkUInt n w = BVConst w (n mod 2 ^ w)"

text \<open>\<^verbatim>\<open>expr::mkInt(n, bits)\<close>: the two's complement numeral.\<close>

definition mkInt :: "int \<Rightarrow> nat \<Rightarrow> expr" where
  "mkInt n w = BVConst w (nat (n mod 2 ^ w))"

text \<open>\<^verbatim>\<open>expr::IntMin(bits)\<close>: the smallest signed value, only the top bit set.\<close>

definition IntMin :: "nat \<Rightarrow> expr" where
  "IntMin w = BVConst w (2 ^ (w - 1) mod 2 ^ w)"

text \<open>\<^verbatim>\<open>a != b\<close> and \<^verbatim>\<open>a.notImplies(b)\<close> (the latter is \<open>a \<and> \<not> b\<close>, Section 4.1).\<close>

definition neq :: "expr \<Rightarrow> expr \<Rightarrow> expr" where
  "neq x y = LNot (Equals x y)"

definition notImplies :: "expr \<Rightarrow> expr \<Rightarrow> expr" where
  "notImplies x y = LAnd x (LNot y)"

definition mkForAll :: "expr fset \<Rightarrow> expr \<Rightarrow> expr" where
  "mkForAll qs body = Forall qs body"

text \<open>\<^verbatim>\<open>expr::bits()\<close>: the width of a bit-vector term (0 where there is none).\<close>

fun bits :: "expr \<Rightarrow> nat" where
  "bits (BVVar nm w) = w"
| "bits (BVConst w n) = w"
| "bits (BVadd x y) = bits x"
| "bits (BVsub x y) = bits x"
| "bits (BVsdiv x y) = bits x"
| "bits (BVudiv x y) = bits x"
| "bits e = 0"

subsection \<open>Models and evaluation\<close>

text \<open>
  Modelled from the spec: a model of the solver assigns a value to every free symbol and
  evaluates terms (\<open>m(term) \<rightarrow> concrete\<close>, with completion). Bit-vector terms evaluate
  to their unsigned value, boolean terms to a truth value; the semantics of the
  bit-vector operations is that of SMT-LIB.
\<close>

type_synonym Model = "string \<Rightarrow> nat"

definition to_signed :: "nat \<Rightarrow> nat \<Rightarrow> int" where
  "to_signed w n = (if n < 2 ^ (w - 1) then int n else int n - 2 ^ w)"

definition trunc_div :: "int \<Rightarrow> int \<Rightarrow> int" where
  "trunc_div x y = sgn x * sgn y * (\<bar>x\<bar> div \<bar>y\<bar>)"

fun eval_bv :: "Model \<Rightarrow> expr \<Rightarrow> nat" where
  "eval_bv m (BVVar nm w) = m nm mod 2 ^ w"
| "eval_bv m (BVConst w n) = n mod 2 ^ w"
| "eval_bv m (BVadd x y) = (eval_bv m x + eval_bv m y) mod 2 ^ bits x"
| "eval_bv m (BVsub x y) = (eval_bv m x + 2 ^ bits x - eval_bv m y) mod 2 ^ bits x"
| "eval_bv m (BVudiv x y) =
     (if eval_bv m y = 0 then 2 ^ bits x - 1 else eval_bv m x div eval_bv m y)"
| "eval_bv m (BVsdiv x y) =
     (if eval_bv m y = 0
      then (if to_signed (bits x) (eval_bv m x) < 0 then 1 else 2 ^ bits x - 1)
      else nat (trunc_div (to_signed (bits x) (eval_bv m x))
                          (to_signed (bits x) (eval_bv m y)) mod 2 ^ bits x))"
| "eval_bv m e = 0"

definition var_names :: "expr fset \<Rightarrow> string set" where
  "var_names qs = {nm. \<exists>w. BVVar nm w |\<in>| qs}"

fun eval_bool :: "Model \<Rightarrow> expr \<Rightarrow> bool" where
  "eval_bool m (BoolConst b) = b"
| "eval_bool m (LNot x) = (\<not> eval_bool m x)"
| "eval_bool m (LAnd x y) = (eval_bool m x \<and> eval_bool m y)"
| "eval_bool m (LOr x y) = (eval_bool m x \<or> eval_bool m y)"
| "eval_bool m (Equals x y) = (eval_bv m x = eval_bv m y)"
| "eval_bool m (BVule x y) = (eval_bv m x \<le> eval_bv m y)"
| "eval_bool m (Forall qs body) =
     (\<forall>m'. (\<forall>nm. nm \<notin> var_names qs \<longrightarrow> m' nm = m nm) \<longrightarrow> eval_bool m' body)"
| "eval_bool m e = False"

text \<open>\<^verbatim>\<open>Model::getUInt(e)\<close>: the unsigned value of a term in the model.\<close>

definition getUInt :: "Model \<Rightarrow> expr \<Rightarrow> nat" where
  "getUInt m e = eval_bv m e"

section \<open>The type system (ir/type.cpp)\<close>

definition var_type_bits :: nat where
  "var_type_bits = 3"

definition var_bw_bits :: nat where
  "var_bw_bits = 10"

text \<open>
  \<^verbatim>\<open>Type::var\<close>: the symbol \<open>opname_var\<close>. The assertion \<^verbatim>\<open>assert(!opname.empty())\<close>
  is the \<open>None\<close> branch, and every function that builds a term from a type variable
  inherits it.
\<close>

definition Type_var :: "string \<Rightarrow> string \<Rightarrow> nat \<Rightarrow> expr option" where
  "Type_var opname v w =
     (if opname = [] then None else Some (mkVar (opname @ CHR ''_'' # v) w))"

definition Type_typeVar :: "string \<Rightarrow> expr option" where
  "Type_typeVar opname = Type_var opname ''type'' var_type_bits"

definition Type_sizeVar :: "string \<Rightarrow> expr option" where
  "Type_sizeVar opname = Type_var opname ''bw'' var_bw_bits"

definition Type_is :: "string \<Rightarrow> nat \<Rightarrow> expr option" where
  "Type_is opname t = do {
     tv \<leftarrow> Type_typeVar opname;
     Some (Equals tv (mkUInt t var_type_bits))
   }"

text \<open>
  Modelled from the spec: \<^verbatim>\<open>ir/type.h\<close>, which declares the classes of the types and
  the enumeration \<^verbatim>\<open>SymbolicType::TypeNum\<close>, is not among the sources. The numbering
  of the categories below is the order in which Section 3 of the specification and
  \<^verbatim>\<open>type.cpp\<close> list them, the one \<^verbatim>\<open>SymbolicType::fixup\<close> relies on when it
  asserts \<^verbatim>\<open>smt_typ >= Int && smt_typ <= Vector\<close>. The constructors carry the prefix
  \<open>Ty\<close>, since \<open>Int\<close> is taken by the syntax of sets. The members of the classes
  are those \<^verbatim>\<open>type.cpp\<close> reads and writes; \<^verbatim>\<open>opname\<close>, a member of the base class,
  is a field of each.
\<close>

datatype TypeNum = TyInt | TyFloat | TyPtr | TyArray | TyVector | TyUndefined

fun TypeNum_val :: "TypeNum \<Rightarrow> nat" where
  "TypeNum_val TyInt = 0"
| "TypeNum_val TyFloat = 1"
| "TypeNum_val TyPtr = 2"
| "TypeNum_val TyArray = 3"
| "TypeNum_val TyVector = 4"
| "TypeNum_val TyUndefined = 5"

definition TypeNum_of :: "nat \<Rightarrow> TypeNum" where
  "TypeNum_of n =
     (if n = 0 then TyInt else if n = 1 then TyFloat else if n = 2 then TyPtr
      else if n = 3 then TyArray else if n = 4 then TyVector else TyUndefined)"

record IntType =
  int_opname :: string
  bitwidth :: nat
  defined :: bool

datatype VoidType = VoidType (void_opname: string)
datatype FloatType = FloatType (float_opname: string)
datatype PtrType = PtrType (ptr_opname: string)
datatype ArrayType = ArrayType (array_opname: string)
datatype VectorType = VectorType (vector_opname: string)

text \<open>
  A symbolic type holds one instance of every concrete variant (the members \<^verbatim>\<open>i\<close>,
  \<^verbatim>\<open>f\<close>, \<^verbatim>\<open>p\<close>, \<^verbatim>\<open>a\<close>, \<^verbatim>\<open>v\<close>, here with the prefix \<open>sym_\<close>), the bit mask
  \<^verbatim>\<open>enabled\<close> and the category \<^verbatim>\<open>typ\<close> (here \<open>sym_typ\<close>) chosen by fix-up.
\<close>

record SymbolicType =
  sym_opname :: string
  sym_name :: string
  enabled :: "32 word"
  sym_typ :: TypeNum
  sym_i :: IntType
  sym_f :: FloatType
  sym_p :: PtrType
  sym_a :: ArrayType
  sym_v :: VectorType

datatype Type =
    VoidTy VoidType
  | IntTy IntType
  | FloatTy FloatType
  | PtrTy PtrType
  | ArrayTy ArrayType
  | VectorTy VectorType
  | SymbolicTy SymbolicType

subsection \<open>Integer types\<close>

definition IntType_bits :: "IntType \<Rightarrow> nat" where
  "IntType_bits t = bitwidth t"

definition IntType_sizeVar :: "IntType \<Rightarrow> expr option" where
  "IntType_sizeVar t =
     (if defined t then Some (mkUInt (IntType_bits t) var_bw_bits)
      else Type_sizeVar (int_opname t))"

definition IntType_getTypeConstraints :: "IntType \<Rightarrow> expr option" where
  "IntType_getTypeConstraints t = do {
     bw \<leftarrow> IntType_sizeVar t;
     Some (LAnd (neq bw (mkUInt 0 var_bw_bits)) (BVule bw (mkUInt 64 var_bw_bits)))
   }"

definition IntType_eq :: "IntType \<Rightarrow> IntType \<Rightarrow> expr option" where
  "IntType_eq l r = do {
     x \<leftarrow> IntType_sizeVar l;
     y \<leftarrow> IntType_sizeVar r;
     Some (Equals x y)
   }"

definition IntType_fixup :: "Model \<Rightarrow> IntType \<Rightarrow> IntType option" where
  "IntType_fixup m t =
     (if \<not> defined t then do {
        bw \<leftarrow> IntType_sizeVar t;
        Some (t\<lparr>bitwidth := getUInt m bw\<rparr>)
      } else Some t)"

subsection \<open>The stubbed concrete types\<close>

definition FloatType_getTypeConstraints :: "FloatType \<Rightarrow> expr option" where
  "FloatType_getTypeConstraints t = Some (BoolConst False)"

definition FloatType_eq :: "FloatType \<Rightarrow> FloatType \<Rightarrow> expr option" where
  "FloatType_eq l r = Some (BoolConst False)"

definition PtrType_getTypeConstraints :: "PtrType \<Rightarrow> expr option" where
  "PtrType_getTypeConstraints t = Some (BoolConst False)"

definition PtrType_eq :: "PtrType \<Rightarrow> PtrType \<Rightarrow> expr option" where
  "PtrType_eq l r = do {
     x \<leftarrow> Type_sizeVar (ptr_opname l);
     y \<leftarrow> Type_sizeVar (ptr_opname r);
     Some (Equals x y)
   }"

definition ArrayType_getTypeConstraints :: "ArrayType \<Rightarrow> expr option" where
  "ArrayType_getTypeConstraints t = Some (BoolConst False)"

definition ArrayType_eq :: "ArrayType \<Rightarrow> ArrayType \<Rightarrow> expr option" where
  "ArrayType_eq l r = Some (BoolConst False)"

definition VectorType_getTypeConstraints :: "VectorType \<Rightarrow> expr option" where
  "VectorType_getTypeConstraints t = Some (BoolConst False)"

definition VectorType_eq :: "VectorType \<Rightarrow> VectorType \<Rightarrow> expr option" where
  "VectorType_eq l r = Some (BoolConst False)"

subsection \<open>Symbolic types\<close>

text \<open>
  \<^verbatim>\<open>expr(enabled & (1 << K)) && Type::isK()\<close>: the mask test is a C++ boolean, lifted to
  a constant term; the category test on the type variable is built whatever the mask says.
\<close>

definition enabled_bit :: "SymbolicType \<Rightarrow> TypeNum \<Rightarrow> bool" where
  "enabled_bit t k = (enabled t AND push_bit (TypeNum_val k) 1 \<noteq> 0)"

definition SymbolicType_is :: "SymbolicType \<Rightarrow> TypeNum \<Rightarrow> expr option" where
  "SymbolicType_is t k = do {
     c \<leftarrow> Type_is (sym_opname t) (TypeNum_val k);
     Some (LAnd (BoolConst (enabled_bit t k)) c)
   }"

definition isInt :: "SymbolicType \<Rightarrow> expr option" where
  "isInt t = SymbolicType_is t TyInt"

definition isFloat :: "SymbolicType \<Rightarrow> expr option" where
  "isFloat t = SymbolicType_is t TyFloat"

definition isPtr :: "SymbolicType \<Rightarrow> expr option" where
  "isPtr t = SymbolicType_is t TyPtr"

definition isArray :: "SymbolicType \<Rightarrow> expr option" where
  "isArray t = SymbolicType_is t TyArray"

definition isVector :: "SymbolicType \<Rightarrow> expr option" where
  "isVector t = SymbolicType_is t TyVector"

text \<open>One step \<^verbatim>\<open>c |= test && rest\<close> of the disjunctions the symbolic type builds.\<close>

definition or_case :: "expr \<Rightarrow> expr option \<Rightarrow> expr option \<Rightarrow> expr option" where
  "or_case c test rest = do {
     x \<leftarrow> test;
     y \<leftarrow> rest;
     Some (LOr c (LAnd x y))
   }"

definition SymbolicType_getTypeConstraints :: "SymbolicType \<Rightarrow> expr option" where
  "SymbolicType_getTypeConstraints t = do {
     c \<leftarrow> or_case (BoolConst False) (isInt t) (IntType_getTypeConstraints (sym_i t));
     c \<leftarrow> or_case c (isFloat t) (FloatType_getTypeConstraints (sym_f t));
     c \<leftarrow> or_case c (isPtr t) (PtrType_getTypeConstraints (sym_p t));
     c \<leftarrow> or_case c (isArray t) (ArrayType_getTypeConstraints (sym_a t));
     c \<leftarrow> or_case c (isVector t) (VectorType_getTypeConstraints (sym_v t));
     Some c
   }"

definition and_case :: "expr option \<Rightarrow> expr option \<Rightarrow> expr option" where
  "and_case test rest = do {
     x \<leftarrow> test;
     y \<leftarrow> rest;
     Some (LAnd x y)
   }"

text \<open>
  \<^verbatim>\<open>SymbolicType::operator==(const Type &b)\<close>. A right operand of no listed class (the
  void type) runs into \<^verbatim>\<open>assert(0)\<close>.
\<close>

definition SymbolicType_eq :: "SymbolicType \<Rightarrow> Type \<Rightarrow> expr option" where
  "SymbolicType_eq t b =
     (case b of
        IntTy rhs \<Rightarrow> and_case (isInt t) (IntType_eq (sym_i t) rhs)
      | FloatTy rhs \<Rightarrow> and_case (isFloat t) (FloatType_eq (sym_f t) rhs)
      | PtrTy rhs \<Rightarrow> and_case (isPtr t) (PtrType_eq (sym_p t) rhs)
      | ArrayTy rhs \<Rightarrow> and_case (isArray t) (ArrayType_eq (sym_a t) rhs)
      | VectorTy rhs \<Rightarrow> and_case (isVector t) (VectorType_eq (sym_v t) rhs)
      | SymbolicTy rhs \<Rightarrow> do {
          c \<leftarrow> or_case (BoolConst False) (isInt t) (IntType_eq (sym_i t) (sym_i rhs));
          c \<leftarrow> or_case c (isFloat t) (FloatType_eq (sym_f t) (sym_f rhs));
          c \<leftarrow> or_case c (isPtr t) (PtrType_eq (sym_p t) (sym_p rhs));
          c \<leftarrow> or_case c (isArray t) (ArrayType_eq (sym_a t) (sym_a rhs));
          c \<leftarrow> or_case c (isVector t) (VectorType_eq (sym_v t) (sym_v rhs));
          x \<leftarrow> Type_typeVar (sym_opname t);
          y \<leftarrow> Type_typeVar (sym_opname rhs);
          Some (LAnd c (Equals x y))
        }
      | VoidTy rhs \<Rightarrow> None)"

text \<open>
  \<^verbatim>\<open>SymbolicType::fixup\<close>: the two assertions on the category read from the model are
  the \<open>None\<close> branch; the switch then fixes the chosen variant only.
\<close>

definition SymbolicType_fixup :: "Model \<Rightarrow> SymbolicType \<Rightarrow> SymbolicType option" where
  "SymbolicType_fixup m t = do {
     tv \<leftarrow> Type_typeVar (sym_opname t);
     let smt_typ = getUInt m tv;
     if \<not> (TypeNum_val TyInt \<le> smt_typ \<and> smt_typ \<le> TypeNum_val TyVector) then None
     else if push_bit smt_typ 1 AND enabled t = 0 then None
     else let t' = t\<lparr>sym_typ := TypeNum_of smt_typ\<rparr> in
       (case sym_typ t' of
          TyInt \<Rightarrow> do { i' \<leftarrow> IntType_fixup m (sym_i t'); Some (t'\<lparr>sym_i := i'\<rparr>) }
        | TyFloat \<Rightarrow> Some t'
        | TyPtr \<Rightarrow> Some t'
        | TyArray \<Rightarrow> Some t'
        | TyVector \<Rightarrow> Some t'
        | TyUndefined \<Rightarrow> None)
   }"

text \<open>
  \<^verbatim>\<open>SymbolicType::setName\<close>: a type with a name of its own keeps it; the variants
  take the same name.
\<close>

definition SymbolicType_setName :: "string \<Rightarrow> SymbolicType \<Rightarrow> SymbolicType" where
  "SymbolicType_setName opname t =
     (let s = (if sym_name t = [] then opname else sym_name t)
      in t\<lparr>sym_opname := s,
            sym_i := (sym_i t)\<lparr>int_opname := s\<rparr>,
            sym_f := FloatType s, sym_p := PtrType s, sym_a := ArrayType s,
            sym_v := VectorType s\<rparr>)"

definition enforceIntType :: "SymbolicType \<Rightarrow> SymbolicType" where
  "enforceIntType t = t\<lparr>enabled := enabled t AND push_bit (TypeNum_val TyInt) 1\<rparr>"

definition enforceIntOrPtrOrVectorType :: "SymbolicType \<Rightarrow> SymbolicType" where
  "enforceIntOrPtrOrVectorType t =
     t\<lparr>enabled := enabled t AND
        (push_bit (TypeNum_val TyInt) 1 OR push_bit (TypeNum_val TyPtr) 1
           OR push_bit (TypeNum_val TyVector) 1)\<rparr>"

subsection \<open>Dispatch over the class of a type\<close>

text \<open>
  A type object is a pair of its address and its contents: \<^verbatim>\<open>Type::operator==\<close> first
  compares the addresses of its operands. The macro \<^verbatim>\<open>CMP\<close> is expanded for the five
  concrete classes in the order of the source.
\<close>

type_synonym Type_obj = "nat \<times> Type"

definition Type_eq :: "Type_obj \<Rightarrow> Type_obj \<Rightarrow> expr option" where
  "Type_eq this b =
     (if fst this = fst b then Some (BoolConst True)
      else case snd this of
        IntTy lhs \<Rightarrow>
          (case snd b of IntTy rhs \<Rightarrow> IntType_eq lhs rhs
           | SymbolicTy rhs \<Rightarrow> SymbolicType_eq rhs (IntTy lhs)
           | _ \<Rightarrow> Some (BoolConst False))
      | FloatTy lhs \<Rightarrow>
          (case snd b of FloatTy rhs \<Rightarrow> FloatType_eq lhs rhs
           | SymbolicTy rhs \<Rightarrow> SymbolicType_eq rhs (FloatTy lhs)
           | _ \<Rightarrow> Some (BoolConst False))
      | PtrTy lhs \<Rightarrow>
          (case snd b of PtrTy rhs \<Rightarrow> PtrType_eq lhs rhs
           | SymbolicTy rhs \<Rightarrow> SymbolicType_eq rhs (PtrTy lhs)
           | _ \<Rightarrow> Some (BoolConst False))
      | ArrayTy lhs \<Rightarrow>
          (case snd b of ArrayTy rhs \<Rightarrow> ArrayType_eq lhs rhs
           | SymbolicTy rhs \<Rightarrow> SymbolicType_eq rhs (ArrayTy lhs)
           | _ \<Rightarrow> Some (BoolConst False))
      | VectorTy lhs \<Rightarrow>
          (case snd b of VectorTy rhs \<Rightarrow> VectorType_eq lhs rhs
           | SymbolicTy rhs \<Rightarrow> SymbolicType_eq rhs (VectorTy lhs)
           | _ \<Rightarrow> Some (BoolConst False))
      | SymbolicTy lhs \<Rightarrow> SymbolicType_eq lhs (snd b)
      | VoidTy lhs \<Rightarrow> Some (BoolConst False))"

definition Type_getTypeConstraints :: "Type \<Rightarrow> expr option" where
  "Type_getTypeConstraints t =
     (case t of
        VoidTy x \<Rightarrow> Some (BoolConst True)
      | IntTy x \<Rightarrow> IntType_getTypeConstraints x
      | FloatTy x \<Rightarrow> FloatType_getTypeConstraints x
      | PtrTy x \<Rightarrow> PtrType_getTypeConstraints x
      | ArrayTy x \<Rightarrow> ArrayType_getTypeConstraints x
      | VectorTy x \<Rightarrow> VectorType_getTypeConstraints x
      | SymbolicTy x \<Rightarrow> SymbolicType_getTypeConstraints x)"

text \<open>\<^verbatim>\<open>fixup\<close> is virtual; the void type and the four stubs do nothing.\<close>

definition Type_fixup :: "Model \<Rightarrow> Type \<Rightarrow> Type option" where
  "Type_fixup m t =
     (case t of
        IntTy x \<Rightarrow> map_option IntTy (IntType_fixup m x)
      | SymbolicTy x \<Rightarrow> map_option SymbolicTy (SymbolicType_fixup m x)
      | _ \<Rightarrow> Some t)"

text \<open>\<^verbatim>\<open>dup\<close> copies the object: the contents are the same, the address is new.\<close>

definition dup :: "Type \<Rightarrow> Type" where
  "dup t = t"

text \<open>
  \<^verbatim>\<open>Type::bits\<close> is virtual: an integer type answers its width, a symbolic type the
  width of the variant fix-up chose, and every other class runs into
  \<^verbatim>\<open>UNREACHABLE()\<close> (or, for an unfixed symbolic type, the assertion), the \<open>None\<close>
  branch.
\<close>

definition Type_bits :: "Type \<Rightarrow> nat option" where
  "Type_bits t =
     (case t of
        IntTy x \<Rightarrow> Some (IntType_bits x)
      | SymbolicTy x \<Rightarrow> (case sym_typ x of TyInt \<Rightarrow> Some (IntType_bits (sym_i x)) | _ \<Rightarrow> None)
      | _ \<Rightarrow> None)"

section \<open>Values, state values and the execution state\<close>

text \<open>
  Modelled from the spec: the headers of \<^verbatim>\<open>Value\<close>, \<^verbatim>\<open>Instr\<close> and \<^verbatim>\<open>State\<close> are not
  among the sources. A value object is seen through what its users in the sources ask of
  it: its address (its identity), its name and whether its class derives from
  \<^verbatim>\<open>Instr\<close> (the \<^verbatim>\<open>dynamic_cast\<close> of \<^verbatim>\<open>Transform::verify\<close>).
\<close>

record Value =
  val_addr :: nat
  getName :: string
  is_Instr :: bool

text \<open>\<^verbatim>\<open>struct StateValue\<close> of \<^verbatim>\<open>ir/state_value.h\<close>; the member \<^verbatim>\<open>value\<close> is \<open>sv_value\<close>.\<close>

record StateValue =
  sv_value :: expr
  non_poison :: expr

text \<open>\<^verbatim>\<open>State::ValTy\<close>: a state value with the quantified symbols of that value.\<close>

type_synonym ValTy = "StateValue \<times> expr fset"

text \<open>
  Modelled from the spec: the execution state of Section 3, with the fields its getters
  in \<^verbatim>\<open>Transform::verify\<close> read (\<^verbatim>\<open>getQuantVars\<close>, \<^verbatim>\<open>getValues\<close>, \<^verbatim>\<open>fnReturned\<close>,
  \<^verbatim>\<open>returnDomain\<close>, \<^verbatim>\<open>returnVal\<close>) and the accumulator \<open>ub\<close> that \<^verbatim>\<open>addUB\<close> conjoins
  to. The environment is kept in the order \<^verbatim>\<open>getValues\<close> enumerates it.
\<close>

record State =
  ub :: expr
  quant_vars :: "expr fset"
  state_values :: "(Value \<times> ValTy) list"
  fnReturned :: bool
  returnDomain :: expr
  returnVal :: ValTy

definition addUB :: "State \<Rightarrow> expr \<Rightarrow> State" where
  "addUB s e = s\<lparr>ub := LAnd (ub s) e\<rparr>"

section \<open>Constants (ir/constant.cpp)\<close>

datatype ConstantBinOp_Op = ConstantBinOp_ADD | ConstantBinOp_SUB | ConstantBinOp_SDIV | ConstantBinOp_UDIV

datatype ConstantFn_Fn = LOG2 | WIDTH

text \<open>
  A constant object carries its type and its name (the members of \<^verbatim>\<open>Value\<close>) and the
  members of its class. The constructors of the two derived classes compute the name;
  they are the functions \<open>ConstantBinOp\<close> and \<open>ConstantFn\<close> below.
\<close>

datatype Constant =
    Constant Type string
  | ConstantBinOp_obj Type string Constant Constant ConstantBinOp_Op
  | ConstantFn_obj Type string ConstantFn_Fn "Value list"

fun Constant_getName :: "Constant \<Rightarrow> string" where
  "Constant_getName (Constant ty nm) = nm"
| "Constant_getName (ConstantBinOp_obj ty nm lhs rhs op) = nm"
| "Constant_getName (ConstantFn_obj ty nm f args) = nm"

fun Constant_getType :: "Constant \<Rightarrow> Type" where
  "Constant_getType (Constant ty nm) = ty"
| "Constant_getType (ConstantBinOp_obj ty nm lhs rhs op) = ty"
| "Constant_getType (ConstantFn_obj ty nm f args) = ty"

definition Constant_bits :: "Constant \<Rightarrow> nat option" where
  "Constant_bits c = Type_bits (Constant_getType c)"

fun ConstantBinOp_opname :: "ConstantBinOp_Op \<Rightarrow> string" where
  "ConstantBinOp_opname ConstantBinOp_ADD = '' + ''"
| "ConstantBinOp_opname ConstantBinOp_SUB = '' - ''"
| "ConstantBinOp_opname ConstantBinOp_SDIV = '' / ''"
| "ConstantBinOp_opname ConstantBinOp_UDIV = '' /u ''"

definition ConstantBinOp :: "Type \<Rightarrow> Constant \<Rightarrow> Constant \<Rightarrow> ConstantBinOp_Op \<Rightarrow> Constant" where
  "ConstantBinOp type lhs rhs op =
     ConstantBinOp_obj type
       (CHR ''('' # Constant_getName lhs @ ConstantBinOp_opname op @ Constant_getName rhs @ '')'')
       lhs rhs op"

definition div_ub :: "expr \<Rightarrow> expr \<Rightarrow> expr \<Rightarrow> bool \<Rightarrow> expr" where
  "div_ub a b ub0 sign =
     (let bts = bits b;
          ub1 = LAnd ub0 (neq b (mkUInt 0 bts))
      in if sign then LAnd ub1 (LOr (neq a (IntMin bts)) (neq b (mkInt (- 1) bts)))
         else ub1)"

text \<open>
  \<^verbatim>\<open>toSMT_cnst\<close> is virtual: the base class answers a free symbol of its own name, a
  binary operation folds its operands, a function application is the placeholder
  \<^verbatim>\<open>expr()\<close>.
\<close>

fun toSMT_cnst :: "Constant \<Rightarrow> (expr \<times> expr) option" where
  "toSMT_cnst (Constant ty nm) = do {
     w \<leftarrow> Type_bits ty;
     Some (mkVar nm w, BoolConst True)
   }"
| "toSMT_cnst (ConstantBinOp_obj ty nm lhs rhs op) = do {
     a \<leftarrow> toSMT_cnst lhs;
     b \<leftarrow> toSMT_cnst rhs;
     let ub0 = LAnd (snd a) (snd b);
     Some (case op of
        ConstantBinOp_ADD \<Rightarrow> (BVadd (fst a) (fst b), ub0)
      | ConstantBinOp_SUB \<Rightarrow> (BVsub (fst a) (fst b), ub0)
      | ConstantBinOp_SDIV \<Rightarrow> (BVsdiv (fst a) (fst b), div_ub (fst a) (fst b) ub0 True)
      | ConstantBinOp_UDIV \<Rightarrow> (BVudiv (fst a) (fst b), div_ub (fst a) (fst b) ub0 False))
   }"
| "toSMT_cnst (ConstantFn_obj ty nm f args) = Some (Invalid, BoolConst True)"

definition Constant_toSMT :: "State \<Rightarrow> Constant \<Rightarrow> (StateValue \<times> State) option" where
  "Constant_toSMT s c = do {
     ret \<leftarrow> toSMT_cnst c;
     Some (\<lparr>sv_value = fst ret, non_poison = BoolConst True\<rparr>, addUB s (snd ret))
   }"

subsection \<open>Construction of a function application\<close>

datatype ConstantFnException = ConstantFnException string

text \<open>\<^verbatim>\<open>std::to_string\<close> on an unsigned number: its decimal digits.\<close>

fun to_string :: "nat \<Rightarrow> string" where
  "to_string n =
     (if n < 10 then [''0123456789'' ! n]
      else to_string (n div 10) @ [''0123456789'' ! (n mod 10)])"

text \<open>The loop over the arguments, with its flag \<^verbatim>\<open>first\<close>.\<close>

fun args_str :: "bool \<Rightarrow> string \<Rightarrow> Value list \<Rightarrow> string" where
  "args_str first str [] = str"
| "args_str first str (arg # args) =
     args_str False ((if \<not> first then str @ '', '' else str) @ getName arg) args"

definition ConstantFn :: "Type \<Rightarrow> string \<Rightarrow> Value list \<Rightarrow> ConstantFnException + Constant" where
  "ConstantFn type name args =
     (case (if name = ''log2'' then Inr (LOG2, 1)
            else if name = ''width'' then Inr (WIDTH, 1)
            else Inl (ConstantFnException (''Unknown function: '' @ name))) of
        Inl e \<Rightarrow> Inl e
      | Inr (f, num_args) \<Rightarrow>
          (let actual_args = length args in
           if actual_args \<noteq> num_args
           then Inl (ConstantFnException
                  (''Expected '' @ to_string num_args @ '' parameter for '' @ name @
                   '', but got '' @ to_string actual_args))
           else Inr (ConstantFn_obj type (args_str True (name @ ''('') args @ '')'') f args)))"

section \<open>Errors and the solver\<close>

text \<open>
  Modelled from the spec: \<^verbatim>\<open>Errors::add\<close> is declared in \<^verbatim>\<open>util/errors.h\<close> and defined
  elsewhere. Section 4.7: an ordered list of strings, in insertion order, without
  deduplication.
\<close>

type_synonym Errors = "string list"

definition Errors_add :: "Errors \<Rightarrow> string \<Rightarrow> Errors" where
  "Errors_add errs str = errs @ [str]"

text \<open>\<^verbatim>\<open>Result::answer\<close> of \<^verbatim>\<open>smt/solver.h\<close>, a satisfiable answer with its model.\<close>

datatype Result = UNSAT | SAT Model | INVALID | UNKNOWN

text \<open>
  The external solver is a parameter: a function from a goal to the answer it gives. It
  is sound when every model it returns satisfies the goal.
\<close>

type_synonym Solver = "expr \<Rightarrow> Result"

definition sound :: "Solver \<Rightarrow> bool" where
  "sound solver = (\<forall>q m. solver q = SAT m \<longrightarrow> eval_bool m q)"

text \<open>
  Modelled from the spec: the static \<^verbatim>\<open>Solver::check(queries)\<close> is declared in
  \<^verbatim>\<open>smt/solver.h\<close> and defined elsewhere. Section 4.2: every goal is run on its own,
  and for each satisfiable one the callback is invoked with the model; other outcomes
  are accepted silently. A callback here acts on the error list, the only state the
  callbacks of \<^verbatim>\<open>check_refinement\<close> touch. The second component is the trace of the
  goals sent to the solver, in the order they are sent.
\<close>

type_synonym Callback = "Model \<Rightarrow> Errors \<Rightarrow> Errors"

fun Solver_check :: "Solver \<Rightarrow> (expr \<times> Callback) list \<Rightarrow> Errors \<times> expr list \<Rightarrow> Errors \<times> expr list" where
  "Solver_check solver [] st = st"
| "Solver_check solver ((q, cb) # queries) (errs, trace) =
     Solver_check solver queries
       ((case solver q of SAT m \<Rightarrow> cb m errs | _ \<Rightarrow> errs), trace @ [q])"

section \<open>The refinement checker (tools/transform.cpp)\<close>

definition check_refinement ::
  "Solver \<Rightarrow> Errors \<times> expr list \<Rightarrow> expr fset \<Rightarrow> expr \<Rightarrow> ValTy \<Rightarrow> expr \<Rightarrow> ValTy \<Rightarrow> Errors \<times> expr list" where
  "check_refinement s errs global_qvars dom_a ap dom_b bp =
     (let a = fst ap;
          b = fst bp;
          qvars = global_qvars |\<union>| snd ap
      in Solver_check s
        [(mkForAll qvars (notImplies dom_a dom_b),
          \<lambda>m e. Errors_add e ''Source is more defined than target''),
         (mkForAll qvars (LAnd dom_a (notImplies (non_poison a) (non_poison b))),
          \<lambda>m e. Errors_add e ''Target is more poisonous than source''),
         (mkForAll qvars (LAnd (LAnd dom_a (non_poison a)) (neq (sv_value a) (sv_value b))),
          \<lambda>m e. Errors_add e ''value mismatch'')]
        errs)"

record TransformVerifyOpts =
  check_each_var :: bool

text \<open>\<^verbatim>\<open>std::out_of_range\<close>, thrown by \<^verbatim>\<open>at\<close> on a key that is not in the map.\<close>

datatype exn = out_of_range

text \<open>
  \<^verbatim>\<open>tgt_vals\<close>: the map from names to the instructions of the target, built with
  \<^verbatim>\<open>emplace\<close>, which keeps the first instruction of a name.
\<close>

fun emplace_all :: "Value list \<Rightarrow> (string \<rightharpoonup> Value) \<Rightarrow> (string \<rightharpoonup> Value)" where
  "emplace_all [] tv = tv"
| "emplace_all (i # is) tv =
     emplace_all is (case tv (getName i) of None \<Rightarrow> tv(getName i \<mapsto> i) | Some old \<Rightarrow> tv)"

text \<open>
  Modelled from the spec: \<^verbatim>\<open>State::at\<close> looks a value up by its identity in the
  environment, as the \<^verbatim>\<open>at\<close> of the standard maps does.
\<close>

fun State_at :: "(Value \<times> ValTy) list \<Rightarrow> Value \<Rightarrow> exn + ValTy" where
  "State_at [] v = Inl out_of_range"
| "State_at ((k, x) # rest) v = (if val_addr k = val_addr v then Inr x else State_at rest v)"

text \<open>The loop of \<^verbatim>\<open>verify\<close> over the values of the source, run when \<^verbatim>\<open>check_each_var\<close> is set.\<close>

fun each_var ::
  "Solver \<Rightarrow> (string \<rightharpoonup> Value) \<Rightarrow> State \<Rightarrow> (Value \<times> ValTy) list \<Rightarrow> Errors \<times> expr list \<Rightarrow>
     exn + Errors \<times> expr list" where
  "each_var s tgt_vals tgt_state [] errs = Inr errs"
| "each_var s tgt_vals tgt_state ((var, val) # rest) errs =
     (let name = getName var in
      if (case name of [] \<Rightarrow> True | c # cs \<Rightarrow> c \<noteq> CHR ''%'') \<or> \<not> is_Instr var
      then each_var s tgt_vals tgt_state rest errs
      else case tgt_vals name of
        None \<Rightarrow> Inl out_of_range
      | Some tv \<Rightarrow>
          (case State_at (state_values tgt_state) tv of
             Inl e \<Rightarrow> Inl e
           | Inr bp \<Rightarrow>
               each_var s tgt_vals tgt_state rest
                 (check_refinement s errs (quant_vars tgt_state)
                    (BoolConst True) val (BoolConst True) bp)))"

text \<open>The comparison of the returns, the last statement of \<^verbatim>\<open>verify\<close>.\<close>

definition check_return :: "Solver \<Rightarrow> State \<Rightarrow> State \<Rightarrow> Errors \<times> expr list \<Rightarrow> Errors \<times> expr list" where
  "check_return s src_state tgt_state errs =
     (if fnReturned src_state \<noteq> fnReturned tgt_state then
        (if fnReturned src_state
         then (Errors_add (fst errs) ''Source returns but target doesn't'', snd errs)
         else (Errors_add (fst errs) ''Target returns but source doesn't'', snd errs))
      else if fnReturned src_state then
        check_refinement s errs (quant_vars tgt_state)
          (returnDomain src_state) (returnVal src_state)
          (returnDomain tgt_state) (returnVal tgt_state)
      else errs)"

text \<open>
  \<^verbatim>\<open>Transform::verify\<close>. The symbolic executor \<^verbatim>\<open>sym_exec\<close> is not among the sources,
  so the function takes what the first lines of the source compute with it: the
  instructions of the target and the two executed states. It returns the error list and
  the trace of the goals sent to the solver, or the exception that escapes.
\<close>

definition verify ::
  "Solver \<Rightarrow> TransformVerifyOpts \<Rightarrow> Value list \<Rightarrow> State \<Rightarrow> State \<Rightarrow> exn + Errors \<times> expr list" where
  "verify s opts tgt_instrs src_state tgt_state =
     (let tgt_vals = emplace_all tgt_instrs Map.empty in
      case (if check_each_var opts
            then each_var s tgt_vals tgt_state (state_values src_state) ([], [])
            else Inr ([], [])) of
        Inl e \<Rightarrow> Inl e
      | Inr errs \<Rightarrow> Inr (check_return s src_state tgt_state errs))"

section \<open>The parser (tools/alive_parser.cpp)\<close>

text \<open>
  Modelled from the spec: the lexer (\<^verbatim>\<open>tools/alive_lexer.h\<close>) is not among the sources.
  The tokens are those the parser names, for the surface syntax of Section 6.
\<close>

datatype token =
    NAME | PRE | COMMA | INT_TYPE | NUM | IDENTIFIER | NSW | NUW | EXACT
  | ADD | SUB | MUL | SDIV | UDIV | SHL | LSHR | ASHR
  | EQUALS | LABEL | RETURN | UNREACH | ARROW | END

text \<open>\<^verbatim>\<open>yylval\<close>: the payload of the token read last, a number or a string.\<close>

record YYSTYPE =
  num :: nat
  str :: string

text \<open>
  Modelled from the spec: one call of \<^verbatim>\<open>yylex\<close> yields a token, with the payload and
  the line number it leaves in \<^verbatim>\<open>yylval\<close> and \<^verbatim>\<open>yylineno\<close>, or throws a
  \<^verbatim>\<open>LexException\<close>. The input of the parser is the list of these results; past its
  end, and from an \<open>END\<close> on, \<^verbatim>\<open>yylex\<close> answers \<open>END\<close>.
\<close>

datatype lexeme = Lexed token YYSTYPE nat | LexException string nat

text \<open>
  Modelled from the spec: the headers of the value classes are not among the sources.
  The objects the parser allocates are written as the constructor calls of the parser.
  An operand is a reference to a value, here the address of the object.
\<close>

datatype Input = Input Type string

datatype IntConst = IntConst Type nat

datatype BinOp_Op = Add | Sub | Mul | SDiv | UDiv | Shl | LShr | AShr

text \<open>
  Modelled from the spec: \<^verbatim>\<open>BinOp::Flags\<close> is a set of flags (Section 3), \<^verbatim>\<open>None\<close>
  the empty one and \<^verbatim>\<open>|\<close> the union.
\<close>

datatype BinOp_Flag = BinOp_NSW | BinOp_NUW | BinOp_Exact

type_synonym BinOp_Flags = "BinOp_Flag set"

datatype Instr =
    BinOp Type string nat nat BinOp_Op BinOp_Flags
  | Return Type nat
  | Unreachable

text \<open>
  Modelled from the spec: \<^verbatim>\<open>ir/function.h\<close> is not among the sources. A function owns
  its inputs, its constants and an ordered list of basic blocks keyed by label, each an
  ordered list of instructions (Section 4.4); \<^verbatim>\<open>getBB\<close> finds the block of a label or
  adds it.
\<close>

record Function =
  inputs :: "(nat \<times> Input) list"
  constants :: "(nat \<times> IntConst) list"
  BBs :: "(string \<times> (nat \<times> Instr) list) list"

definition addInput :: "Function \<Rightarrow> nat \<times> Input \<Rightarrow> Function" where
  "addInput f i = f\<lparr>inputs := inputs f @ [i]\<rparr>"

definition addConstant :: "Function \<Rightarrow> nat \<times> IntConst \<Rightarrow> Function" where
  "addConstant f c = f\<lparr>constants := constants f @ [c]\<rparr>"

definition getBB :: "Function \<Rightarrow> string \<Rightarrow> Function" where
  "getBB f label = (if label \<in> set (map fst (BBs f)) then f else f\<lparr>BBs := BBs f @ [(label, [])]\<rparr>)"

definition addIntr :: "Function \<Rightarrow> string \<Rightarrow> nat \<times> Instr \<Rightarrow> Function" where
  "addIntr f bb i = f\<lparr>BBs := map (\<lambda>(l, is). if l = bb then (l, is @ [i]) else (l, is)) (BBs f)\<rparr>"

text \<open>
  The state of the parser: the rest of the input with the globals of the lexer, the
  members \<^verbatim>\<open>last\<close> (here \<open>last_tok\<close>) and \<^verbatim>\<open>returned\<close> of the tokenizer, the statics \<^verbatim>\<open>identifiers\<close> and
  \<^verbatim>\<open>fn\<close>, and the next free address of the allocator. A function of the parser returns
  its result with the new state; \<open>None\<close> stands for an exception that leaves the parser
  (a \<^verbatim>\<open>ParseException\<close>), a failed assertion or \<^verbatim>\<open>UNREACHABLE()\<close>.
\<close>

record parser =
  input :: "lexeme list"
  yylval :: YYSTYPE
  yylineno :: nat
  last_tok :: token
  returned :: bool
  identifiers :: "string \<rightharpoonup> nat"
  fn :: Function
  next_addr :: nat

subsection \<open>The tokenizer\<close>

definition get_new_token :: "parser \<Rightarrow> (token \<times> parser) option" where
  "get_new_token st =
     (case input st of
        [] \<Rightarrow> Some (END, st)
      | Lexed t v l # rest \<Rightarrow>
          if t = END then Some (END, st\<lparr>yylval := v, yylineno := l\<rparr>)
          else Some (t, st\<lparr>input := rest, yylval := v, yylineno := l\<rparr>)
      | LexException s l # rest \<Rightarrow> None)"

text \<open>\<^verbatim>\<open>tokenizer_t::operator*\<close>.\<close>

definition tokenizer_next :: "parser \<Rightarrow> (token \<times> parser) option" where
  "tokenizer_next st =
     (if returned st then Some (last_tok st, st\<lparr>returned := False\<rparr>)
      else get_new_token st)"

definition peek :: "parser \<Rightarrow> (token \<times> parser) option" where
  "peek st =
     (if returned st then Some (last_tok st, st)
      else do {
        (t, st1) \<leftarrow> get_new_token (st\<lparr>returned := True\<rparr>);
        Some (t, st1\<lparr>last_tok := t\<rparr>)
      })"

definition consumeIf :: "token \<Rightarrow> parser \<Rightarrow> (bool \<times> parser) option" where
  "consumeIf expected st = do {
     (tok, st1) \<leftarrow> peek st;
     if tok = expected then Some (True, st1\<lparr>returned := False\<rparr>)
     else Some (False, st1)
   }"

definition ensure :: "token \<Rightarrow> parser \<Rightarrow> parser option" where
  "ensure expected st = do {
     (t, st1) \<leftarrow> tokenizer_next st;
     if t \<noteq> expected then None else Some st1
   }"

definition unget :: "token \<Rightarrow> parser \<Rightarrow> parser option" where
  "unget t st = (if returned st then None else Some (st\<lparr>returned := True, last_tok := t\<rparr>))"

subsection \<open>Operands, types and flags\<close>

text \<open>
  \<^verbatim>\<open>get_constant(uint64_t n, Type *t)\<close>: the number is narrowed to 64 bits when it is
  passed.
\<close>

definition get_constant :: "nat \<Rightarrow> Type \<Rightarrow> parser \<Rightarrow> nat \<times> parser" where
  "get_constant n t st =
     (let ret = next_addr st
      in (ret, st\<lparr>fn := addConstant (fn st) (ret, IntConst (dup t) (n mod 2 ^ 64)),
                   next_addr := Suc (next_addr st)\<rparr>))"

definition parse_comma :: "parser \<Rightarrow> parser option" where
  "parse_comma st = ensure COMMA st"

text \<open>
  Modelled from the spec: the constructors \<^verbatim>\<open>IntType(bits)\<close> and \<^verbatim>\<open>SymbolicType()\<close> are
  declared in the absent header of the types. The first makes a type of a given width,
  the second a symbolic type with every category enabled and none chosen (Section 3).
  The width of a type is an \<^verbatim>\<open>unsigned\<close> (\<^verbatim>\<open>IntType::bits\<close> returns one), so the
  number the parser passes is narrowed to 32 bits; no range check follows.
\<close>

definition IntType_new :: "nat \<Rightarrow> IntType" where
  "IntType_new n = \<lparr>int_opname = [], bitwidth = n mod 2 ^ 32, defined = True\<rparr>"

definition SymbolicType_new :: SymbolicType where
  "SymbolicType_new =
     \<lparr>sym_opname = [], sym_name = [], enabled = 31, sym_typ = TyUndefined,
      sym_i = \<lparr>int_opname = [], bitwidth = 0, defined = False\<rparr>,
      sym_f = FloatType [], sym_p = PtrType [], sym_a = ArrayType [], sym_v = VectorType []\<rparr>"

definition parse_type :: "bool \<Rightarrow> parser \<Rightarrow> (Type \<times> parser) option" where
  "parse_type optional st = do {
     (t, st1) \<leftarrow> tokenizer_next st;
     if t = INT_TYPE then Some (IntTy (IntType_new (num (yylval st1))), st1)
     else if optional then do {
       st2 \<leftarrow> unget t st1;
       Some (SymbolicTy SymbolicType_new, st2)
     }
     else None
   }"

definition parse_operand :: "Type \<Rightarrow> parser \<Rightarrow> (nat \<times> parser) option" where
  "parse_operand type st = do {
     (t, st1) \<leftarrow> tokenizer_next st;
     if t = NUM then Some (get_constant (num (yylval st1)) type st1)
     else if t = IDENTIFIER then
       (let id = str (yylval st1) in
        case identifiers st1 id of
          Some I \<Rightarrow> Some (I, st1)
        | None \<Rightarrow>
            (let ret = next_addr st1
             in Some (ret, st1\<lparr>fn := addInput (fn st1) (ret, Input (dup type) id),
                               identifiers := (identifiers st1)(id \<mapsto> ret),
                               next_addr := Suc (next_addr st1)\<rparr>)))
     else None
   }"

text \<open>
  The measure of the loops of the parser: the tokens not yet consumed, the one handed
  back to the tokenizer included.
\<close>

definition pending :: "parser \<Rightarrow> nat" where
  "pending st = length (input st) + (if returned st \<and> last_tok st \<noteq> END then 1 else 0)"

lemma pending_get_new_token:
  "get_new_token st = Some (t, st1) \<Longrightarrow>
     length (input st1) + (if t \<noteq> END then 1 else 0) = length (input st) \<and>
     returned st1 = returned st \<and> last_tok st1 = last_tok st"
  by (auto simp: get_new_token_def split: list.splits lexeme.splits if_splits)

lemma pending_tokenizer_next:
  "tokenizer_next st = Some (t, st1) \<Longrightarrow> pending st1 + (if t \<noteq> END then 1 else 0) = pending st"
  by (auto simp: tokenizer_next_def pending_def dest!: pending_get_new_token split: if_splits)

lemma returned_tokenizer_next:
  "tokenizer_next st = Some (t, st1) \<Longrightarrow> \<not> returned st1"
  by (auto simp: tokenizer_next_def dest!: pending_get_new_token split: if_splits)

lemma pending_peek: "peek st = Some (t, st1) \<Longrightarrow> pending st1 = pending st \<and> returned st1 \<and> last_tok st1 = t"
  by (auto simp: peek_def pending_def dest!: pending_get_new_token split: if_splits Option.bind_splits)

lemma pending_consumeIf:
  "consumeIf e st = Some (b, st1) \<Longrightarrow>
     pending st1 + (if b \<and> e \<noteq> END then 1 else 0) = pending st"
  by (auto simp: consumeIf_def pending_def dest!: pending_peek split: if_splits Option.bind_splits)

text \<open>\<^verbatim>\<open>parse_nsw_nuw\<close>: the loop ends at the first token that is neither flag.\<close>

function parse_nsw_nuw_loop :: "BinOp_Flags \<Rightarrow> parser \<Rightarrow> (BinOp_Flags \<times> parser) option" where
  "parse_nsw_nuw_loop flags st = do {
     (nsw, st1) \<leftarrow> consumeIf NSW st;
     if nsw then parse_nsw_nuw_loop (flags \<union> {BinOp_NSW}) st1
     else do {
       (nuw, st2) \<leftarrow> consumeIf NUW st1;
       if nuw then parse_nsw_nuw_loop (flags \<union> {BinOp_NUW}) st2
       else Some (flags, st2)
     }
   }"
  by pat_completeness auto
termination
proof (relation "measure (\<lambda>(flags, st). pending st)")
  show "wf (measure (\<lambda>(flags, st). pending st))" by simp
next
  fix flags st x xa y
  assume "consumeIf NSW st = Some x" "(xa, y) = x" "xa"
  then show "((flags \<union> {BinOp_NSW}, y), flags, st) \<in> measure (\<lambda>(flags, st). pending st)"
    using pending_consumeIf [of NSW st xa y] by auto
next
  fix flags st x xa y xb xc ya
  assume "consumeIf NSW st = Some x" "(xa, y) = x" "\<not> xa"
    "consumeIf NUW y = Some xb" "(xc, ya) = xb" "xc"
  then show "((flags \<union> {BinOp_NUW}, ya), flags, st) \<in> measure (\<lambda>(flags, st). pending st)"
    using pending_consumeIf [of NSW st xa y] pending_consumeIf [of NUW y xc ya] by auto
qed

declare parse_nsw_nuw_loop.simps [simp del]

definition parse_nsw_nuw :: "parser \<Rightarrow> (BinOp_Flags \<times> parser) option" where
  "parse_nsw_nuw st = parse_nsw_nuw_loop {} st"

definition parse_exact :: "parser \<Rightarrow> (BinOp_Flags \<times> parser) option" where
  "parse_exact st = do {
     (b, st1) \<leftarrow> consumeIf EXACT st;
     if b then Some ({BinOp_Exact}, st1) else Some ({}, st1)
   }"

definition parse_binop_flags :: "token \<Rightarrow> parser \<Rightarrow> (BinOp_Flags \<times> parser) option" where
  "parse_binop_flags op_token st =
     (if op_token = ADD then parse_nsw_nuw st
      else if op_token = SUB then parse_nsw_nuw st
      else if op_token = MUL then parse_nsw_nuw st
      else if op_token = SDIV then parse_exact st
      else if op_token = UDIV then parse_exact st
      else if op_token = SHL then parse_nsw_nuw st
      else if op_token = LSHR then parse_exact st
      else if op_token = ASHR then parse_exact st
      else None)"

subsection \<open>Instructions and function bodies\<close>

definition binop_of_token :: "token \<Rightarrow> BinOp_Op option" where
  "binop_of_token op_token =
     (if op_token = ADD then Some Add
      else if op_token = SUB then Some Sub
      else if op_token = MUL then Some Mul
      else if op_token = SDIV then Some SDiv
      else if op_token = UDIV then Some UDiv
      else if op_token = SHL then Some Shl
      else if op_token = LSHR then Some LShr
      else if op_token = ASHR then Some AShr
      else None)"

text \<open>\<^verbatim>\<open>make_unique\<close> of an instruction: the object at the next free address.\<close>

definition new_instr :: "Instr \<Rightarrow> parser \<Rightarrow> (nat \<times> Instr) \<times> parser" where
  "new_instr i st = ((next_addr st, i), st\<lparr>next_addr := Suc (next_addr st)\<rparr>)"

definition parse_binop :: "string \<Rightarrow> token \<Rightarrow> parser \<Rightarrow> ((nat \<times> Instr) \<times> parser) option" where
  "parse_binop name op_token st = do {
     (flags, st1) \<leftarrow> parse_binop_flags op_token st;
     (type, st2) \<leftarrow> parse_type True st1;
     (a, st3) \<leftarrow> parse_operand type st2;
     st4 \<leftarrow> parse_comma st3;
     (b, st5) \<leftarrow> parse_operand type st4;
     op \<leftarrow> binop_of_token op_token;
     Some (new_instr (BinOp type name a b op flags) st5)
   }"

definition parse_instr :: "string \<Rightarrow> parser \<Rightarrow> ((nat \<times> Instr) \<times> parser) option" where
  "parse_instr name st = do {
     st1 \<leftarrow> ensure EQUALS st;
     (t, st2) \<leftarrow> tokenizer_next st1;
     if t \<in> {ADD, SUB, MUL, SDIV, UDIV, SHL, ASHR, LSHR} then parse_binop name t st2
     else None
   }"

definition parse_return :: "parser \<Rightarrow> ((nat \<times> Instr) \<times> parser) option" where
  "parse_return st = do {
     (type, st1) \<leftarrow> parse_type True st;
     (val, st2) \<leftarrow> parse_operand type st1;
     Some (new_instr (Return type val) st2)
   }"

text \<open>\<^verbatim>\<open>identifiers.emplace(name, i)\<close>: a name that is bound keeps its binding.\<close>

definition emplace :: "(string \<rightharpoonup> nat) \<Rightarrow> string \<Rightarrow> nat \<Rightarrow> (string \<rightharpoonup> nat)" where
  "emplace ids name v = (case ids name of None \<Rightarrow> ids(name \<mapsto> v) | Some old \<Rightarrow> ids)"

lemma pending_updates [simp]:
  "pending (st\<lparr>next_addr := n\<rparr>) = pending st"
  "pending (st\<lparr>fn := f\<rparr>) = pending st"
  "pending (st\<lparr>identifiers := ids\<rparr>) = pending st"
  by (simp_all add: pending_def)

lemma pending_ensure: "ensure e st = Some st1 \<Longrightarrow> pending st1 \<le> pending st"
  by (auto simp: ensure_def dest!: pending_tokenizer_next split: if_splits Option.bind_splits)

lemma pending_parse_type: "parse_type optional st = Some (ty, st1) \<Longrightarrow> pending st1 \<le> pending st"
  by (auto simp: parse_type_def unget_def pending_def
      dest!: pending_tokenizer_next split: if_splits Option.bind_splits)

lemma pending_parse_operand: "parse_operand ty st = Some (v, st1) \<Longrightarrow> pending st1 \<le> pending st"
  by (auto simp: parse_operand_def get_constant_def pending_def Let_def
      dest!: pending_tokenizer_next split: if_splits Option.bind_splits option.splits)

lemma pending_parse_nsw_nuw_loop:
  "parse_nsw_nuw_loop flags st = Some (fl, st1) \<Longrightarrow> pending st1 \<le> pending st"
proof (induction flags st rule: parse_nsw_nuw_loop.induct)
  case (1 flags st)
  from "1.prems" obtain nsw sa where a: "consumeIf NSW st = Some (nsw, sa)"
    by (subst (asm) parse_nsw_nuw_loop.simps) (auto split: Option.bind_splits)
  show ?case
  proof (cases nsw)
    case True
    with a "1.prems" have "parse_nsw_nuw_loop (flags \<union> {BinOp_NSW}) sa = Some (fl, st1)"
      by (subst (asm) parse_nsw_nuw_loop.simps) simp
    with "1.IH"(1) [OF a refl True] pending_consumeIf [OF a] show ?thesis
      by (simp split: if_splits)
  next
    case False
    with a "1.prems" obtain nuw sb where b: "consumeIf NUW sa = Some (nuw, sb)"
      by (subst (asm) parse_nsw_nuw_loop.simps) (auto split: Option.bind_splits)
    show ?thesis
    proof (cases nuw)
      case True
      with a b False "1.prems" have "parse_nsw_nuw_loop (flags \<union> {BinOp_NUW}) sb = Some (fl, st1)"
        by (subst (asm) parse_nsw_nuw_loop.simps) simp
      with "1.IH"(2) [OF a refl False b refl True]
        pending_consumeIf [OF a] pending_consumeIf [OF b] show ?thesis
        by (simp split: if_splits)
    next
      case nuw: False
      with a b False "1.prems" have "st1 = sb"
        by (subst (asm) parse_nsw_nuw_loop.simps) simp
      with pending_consumeIf [OF a] pending_consumeIf [OF b] show ?thesis
        by (simp split: if_splits)
    qed
  qed
qed

lemma pending_parse_binop_flags:
  "parse_binop_flags t st = Some (fl, st1) \<Longrightarrow> pending st1 \<le> pending st"
  by (auto simp: parse_binop_flags_def parse_nsw_nuw_def parse_exact_def
      dest!: pending_parse_nsw_nuw_loop pending_consumeIf split: if_splits Option.bind_splits)

lemma pending_new_instr: "new_instr i st = (x, st1) \<Longrightarrow> pending st1 = pending st"
  by (auto simp: new_instr_def)

lemma pending_parse_binop:
  assumes "parse_binop name t st = Some (i, st5)"
  shows "pending st5 \<le> pending st"
proof -
  from assms obtain flags st1 where 1: "parse_binop_flags t st = Some (flags, st1)"
    by (auto simp: parse_binop_def split: Option.bind_splits)
  with assms obtain type st2 where 2: "parse_type True st1 = Some (type, st2)"
    by (auto simp: parse_binop_def split: Option.bind_splits)
  with 1 assms obtain a st3 where 3: "parse_operand type st2 = Some (a, st3)"
    by (auto simp: parse_binop_def split: Option.bind_splits)
  with 1 2 assms obtain st4 where 4: "parse_comma st3 = Some st4"
    by (auto simp: parse_binop_def split: Option.bind_splits)
  with 1 2 3 assms obtain b st5' where 5: "parse_operand type st4 = Some (b, st5')"
    by (auto simp: parse_binop_def split: Option.bind_splits)
  with 1 2 3 4 assms have "pending st5 = pending st5'"
    by (auto simp: parse_binop_def new_instr_def split: Option.bind_splits)
  with pending_parse_binop_flags [OF 1] pending_parse_type [OF 2] pending_parse_operand [OF 3]
    pending_ensure [OF 4 [unfolded parse_comma_def]] pending_parse_operand [OF 5]
  show ?thesis by linarith
qed

lemma pending_parse_instr:
  assumes "parse_instr name st = Some (i, st3)"
  shows "pending st3 \<le> pending st"
proof -
  from assms obtain st1 where 1: "ensure EQUALS st = Some st1"
    by (auto simp: parse_instr_def split: Option.bind_splits)
  with assms obtain t st2 where 2: "tokenizer_next st1 = Some (t, st2)"
    by (auto simp: parse_instr_def split: Option.bind_splits)
  with 1 assms have 3: "parse_binop name t st2 = Some (i, st3)"
    by (auto simp: parse_instr_def split: Option.bind_splits if_splits)
  from pending_ensure [OF 1] pending_tokenizer_next [OF 2] pending_parse_binop [OF 3]
  show ?thesis by (simp split: if_splits)
qed

lemma pending_parse_return:
  assumes "parse_return st = Some (i, st3)"
  shows "pending st3 \<le> pending st"
proof -
  from assms obtain type st1 where 1: "parse_type True st = Some (type, st1)"
    by (auto simp: parse_return_def split: Option.bind_splits)
  with assms obtain v st2 where 2: "parse_operand type st1 = Some (v, st2)"
    by (auto simp: parse_return_def split: Option.bind_splits)
  with 1 assms have "pending st3 = pending st2"
    by (auto simp: parse_return_def new_instr_def split: Option.bind_splits)
  with pending_parse_type [OF 1] pending_parse_operand [OF 2] show ?thesis by linarith
qed

text \<open>
  The loop of \<^verbatim>\<open>parse_fn\<close>; \<open>bb\<close> is the label of the current block. A token that
  starts no statement is handed back and ends the function.
\<close>

function parse_fn_loop :: "string \<Rightarrow> parser \<Rightarrow> parser option" where
  "parse_fn_loop bb st = do {
     (t, st1) \<leftarrow> tokenizer_next st;
     if t = IDENTIFIER then do {
       let name = str (yylval st1);
       (i, st2) \<leftarrow> parse_instr name st1;
       parse_fn_loop bb (st2\<lparr>identifiers := emplace (identifiers st2) name (fst i),
                              fn := addIntr (fn st2) bb i\<rparr>)
     }
     else if t = LABEL then
       parse_fn_loop (str (yylval st1)) (st1\<lparr>fn := getBB (fn st1) (str (yylval st1))\<rparr>)
     else if t = RETURN then do {
       (i, st2) \<leftarrow> parse_return st1;
       parse_fn_loop bb (st2\<lparr>fn := addIntr (fn st2) bb i\<rparr>)
     }
     else if t = UNREACH then
       (case new_instr Unreachable st1 of
          (i, st2) \<Rightarrow> parse_fn_loop bb (st2\<lparr>fn := addIntr (fn st2) bb i\<rparr>))
     else unget t st1
   }"
  by pat_completeness auto
termination
proof (relation "measure (\<lambda>(bb, st). pending st)")
  show "wf (measure (\<lambda>(bb, st). pending st))" by simp
next
  fix bb st a x y xa aa xb ya
  assume "tokenizer_next st = Some a" "(x, y) = a" "x = IDENTIFIER"
    "parse_instr xa y = Some aa" "(xb, ya) = aa"
  then show "((bb, ya\<lparr>identifiers := emplace (identifiers ya) xa (fst xb),
                        fn := addIntr (fn ya) bb xb\<rparr>), bb, st)
             \<in> measure (\<lambda>(bb, st). pending st)"
    using pending_tokenizer_next [of st x y] pending_parse_instr [of xa y xb ya] by auto
next
  fix bb st a x y
  assume "tokenizer_next st = Some a" "(x, y) = a" "x = LABEL"
  then show "((str (yylval y), y\<lparr>fn := getBB (fn y) (str (yylval y))\<rparr>), bb, st)
             \<in> measure (\<lambda>(bb, st). pending st)"
    using pending_tokenizer_next [of st x y] by auto
next
  fix bb st a x y aa xa ya
  assume "tokenizer_next st = Some a" "(x, y) = a" "x = RETURN"
    "parse_return y = Some aa" "(xa, ya) = aa"
  then show "((bb, ya\<lparr>fn := addIntr (fn ya) bb xa\<rparr>), bb, st)
             \<in> measure (\<lambda>(bb, st). pending st)"
    using pending_tokenizer_next [of st x y] pending_parse_return [of y xa ya] by auto
next
  fix bb st a x y xa ya
  assume "tokenizer_next st = Some a" "(x, y) = a" "x = UNREACH"
    "(xa, ya) = new_instr Unreachable y"
  then show "((bb, ya\<lparr>fn := addIntr (fn ya) bb xa\<rparr>), bb, st)
             \<in> measure (\<lambda>(bb, st). pending st)"
    using pending_tokenizer_next [of st x y] pending_new_instr [of Unreachable y xa ya] by auto
qed

declare parse_fn_loop.simps [simp del]

definition parse_fn :: "Function \<Rightarrow> parser \<Rightarrow> parser option" where
  "parse_fn f st = parse_fn_loop [] (st\<lparr>fn := getBB f [], identifiers := Map.empty\<rparr>)"

section \<open>Notions the properties are stated with\<close>

text \<open>An answer of the solver that carries a model.\<close>

definition is_sat :: "Result \<Rightarrow> bool" where
  "is_sat r = (case r of SAT m \<Rightarrow> True | _ \<Rightarrow> False)"


text \<open>The three goals of one refinement check, in the order they are sent.\<close>

definition refinement_queries ::
  "expr fset \<Rightarrow> expr \<Rightarrow> StateValue \<Rightarrow> expr \<Rightarrow> StateValue \<Rightarrow> expr list" where
  "refinement_queries qs dom_a a dom_b b =
     [Forall qs (LAnd dom_a (LNot dom_b)),
      Forall qs (LAnd dom_a (LAnd (non_poison a) (LNot (non_poison b)))),
      Forall qs (LAnd (LAnd dom_a (non_poison a)) (LNot (Equals (sv_value a) (sv_value b))))]"

text \<open>The messages of the goals the solver finds satisfiable, one for each, in order.\<close>

definition answer_errors :: "Solver \<Rightarrow> (expr \<times> string) list \<Rightarrow> string list" where
  "answer_errors s qs = map snd (filter (\<lambda>(q, msg). is_sat (s q)) qs)"


text \<open>
  An executed state is well formed for the instructions of its function when the names
  of the instructions are unique, the environment holds one entry for an object, and
  every instruction in the environment is an instruction of the function.
\<close>

definition wf_exec :: "Value list \<Rightarrow> State \<Rightarrow> bool" where
  "wf_exec instrs st =
     (distinct (map getName instrs) \<and>
      distinct (map (\<lambda>e. val_addr (fst e)) (state_values st)) \<and>
      (\<forall>e \<in> set (state_values st). is_Instr (fst e) \<longrightarrow> fst e \<in> set instrs))"

text \<open>The five categories, the category of a concrete type and the variants of a symbolic one.\<close>

definition all_categories :: "TypeNum list" where
  "all_categories = [TyInt, TyFloat, TyPtr, TyArray, TyVector]"

definition category :: "Type \<Rightarrow> TypeNum option" where
  "category t =
     (case t of IntTy x \<Rightarrow> Some TyInt | FloatTy x \<Rightarrow> Some TyFloat | PtrTy x \<Rightarrow> Some TyPtr
      | ArrayTy x \<Rightarrow> Some TyArray | VectorTy x \<Rightarrow> Some TyVector | _ \<Rightarrow> None)"

definition variant :: "SymbolicType \<Rightarrow> TypeNum \<Rightarrow> Type" where
  "variant t k =
     (case k of TyInt \<Rightarrow> IntTy (sym_i t) | TyFloat \<Rightarrow> FloatTy (sym_f t)
      | TyPtr \<Rightarrow> PtrTy (sym_p t) | TyArray \<Rightarrow> ArrayTy (sym_a t)
      | TyVector \<Rightarrow> VectorTy (sym_v t) | TyUndefined \<Rightarrow> SymbolicTy t)"

text \<open>A predicate that was built (no assertion failed) and is true in the model.\<close>

definition holds :: "Model \<Rightarrow> expr option \<Rightarrow> bool" where
  "holds m e = (case e of Some x \<Rightarrow> eval_bool m x | None \<Rightarrow> False)"

text \<open>
  Equality of two symbolic types in the words of the specification: the disjunction,
  over the categories enabled in both, of the category tests with the equality of the
  two variants of that category.
\<close>

definition spec_symbolic_eq :: "Model \<Rightarrow> nat \<Rightarrow> SymbolicType \<Rightarrow> nat \<Rightarrow> SymbolicType \<Rightarrow> bool" where
  "spec_symbolic_eq m pa l pb r =
     list_ex (\<lambda>k. enabled_bit l k \<and> enabled_bit r k \<and>
                  holds m (Type_is (sym_opname l) (TypeNum_val k)) \<and>
                  holds m (Type_is (sym_opname r) (TypeNum_val k)) \<and>
                  holds m (Type_eq (pa, variant l k) (pb, variant r k)))
       all_categories"

subsection \<open>Examples\<close>

text \<open>
  Two symbolic types as the parser makes them, named after the values \<open>%a\<close> and
  \<open>%b\<close>, the first restricted to integers, pointers and vectors, the second to
  integers.
\<close>

definition ty_a :: SymbolicType where
  "ty_a = enforceIntOrPtrOrVectorType (SymbolicType_setName ''%a'' SymbolicType_new)"

definition ty_b :: SymbolicType where
  "ty_b = enforceIntType (SymbolicType_setName ''%b'' SymbolicType_new)"

text \<open>The model that makes the types of \<open>%a\<close> and \<open>%b\<close> integers of 8 bits.\<close>

definition both_int8 :: Model where
  "both_int8 = (\<lambda>nm. if nm = ''%a_type'' \<or> nm = ''%b_type'' then 0 else 8)"

text \<open>The type \<open>i8\<close> and the model that assigns 8 to every symbol.\<close>

definition i8 :: IntType where
  "i8 = IntType_new 8"

definition all8 :: Model where
  "all8 = (\<lambda>nm. 8)"

text \<open>
  The executed state of \<open>%r = add i8 %x, 1; ret i8 %r\<close>: the input, the addition
  and the return as value objects, and the state values of the first two.
\<close>

definition val_x :: Value where
  "val_x = \<lparr>val_addr = 0, getName = ''%x'', is_Instr = False\<rparr>"

definition val_r :: Value where
  "val_r = \<lparr>val_addr = 1, getName = ''%r'', is_Instr = True\<rparr>"

definition val_ret :: Value where
  "val_ret = \<lparr>val_addr = 2, getName = ''return'', is_Instr = True\<rparr>"

definition sv_x :: StateValue where
  "sv_x = \<lparr>sv_value = BVVar ''%x'' 8, non_poison = BoolConst True\<rparr>"

definition sv_x1 :: StateValue where
  "sv_x1 = \<lparr>sv_value = BVadd (BVVar ''%x'' 8) (BVConst 8 1), non_poison = BoolConst True\<rparr>"

definition state_x1 :: State where
  "state_x1 =
     \<lparr>ub = BoolConst True, quant_vars = {||},
      state_values = [(val_x, (sv_x, {||})), (val_r, (sv_x1, {||}))],
      fnReturned = True, returnDomain = BoolConst True, returnVal = (sv_x1, {||})\<rparr>"

text \<open>A state that returned nothing, as that of a function that ends in \<open>unreachable\<close>.\<close>

definition state_unreachable :: State where
  "state_unreachable =
     \<lparr>ub = BoolConst False, quant_vars = {||}, state_values = [],
      fnReturned = False, returnDomain = BoolConst False,
      returnVal = (\<lparr>sv_value = Invalid, non_poison = Invalid\<rparr>, {||})\<rparr>"



text \<open>
  The goal \<open>%x \<noteq> %y\<close> of a value comparison, a model of it, and a solver that finds
  this model for this goal and answers \<open>UNSAT\<close> to every other goal.
\<close>

definition sv_y :: StateValue where
  "sv_y = \<lparr>sv_value = BVVar ''%y'' 8, non_poison = BoolConst True\<rparr>"

definition goal_x_neq_y :: expr where
  "goal_x_neq_y =
     Forall {||} (LAnd (LAnd (BoolConst True) (BoolConst True))
                       (LNot (Equals (BVVar ''%x'' 8) (BVVar ''%y'' 8))))"

definition model_x_neq_y :: Model where
  "model_x_neq_y = (\<lambda>nm. if nm = ''%x'' then 0 else 1)"

definition mismatch_solver :: Solver where
  "mismatch_solver q = (if q = goal_x_neq_y then SAT model_x_neq_y else UNSAT)"

definition unsat_solver :: Solver where
  "unsat_solver q = UNSAT"

text \<open>The constant \<open>(C / D)\<close> over \<open>i8\<close>.\<close>

definition const_sdiv :: Constant where
  "const_sdiv = ConstantBinOp (IntTy i8) (Constant (IntTy i8) ''C'') (Constant (IntTy i8) ''D'')
                  ConstantBinOp_SDIV"

text \<open>The state before a function is executed.\<close>

definition state_init :: State where
  "state_init =
     \<lparr>ub = BoolConst True, quant_vars = {||}, state_values = [],
      fnReturned = False, returnDomain = BoolConst False,
      returnVal = (\<lparr>sv_value = Invalid, non_poison = Invalid\<rparr>, {||})\<rparr>"

text \<open>
  The parser at the start of the statement \<open>ret %x\<close> in a function that has not used
  \<open>%x\<close> before, and at the start of \<open>%r = add %x, %x\<close>.
\<close>

definition lex :: "token \<Rightarrow> string \<Rightarrow> lexeme" where
  "lex t s = Lexed t \<lparr>num = 0, str = s\<rparr> 1"

definition parser_init :: "lexeme list \<Rightarrow> parser" where
  "parser_init toks =
     \<lparr>input = toks, yylval = \<lparr>num = 0, str = []\<rparr>, yylineno = 1, last_tok = END,
      returned = False, identifiers = Map.empty,
      fn = \<lparr>inputs = [], constants = [], BBs = [([], [])]\<rparr>, next_addr = 0\<rparr>"

definition toks_x :: "lexeme list" where
  "toks_x = [lex IDENTIFIER ''%x'']"

definition toks_add_x_x :: "lexeme list" where
  "toks_add_x_x =
     [lex IDENTIFIER ''%r'', lex EQUALS [], lex ADD [], lex IDENTIFIER ''%x'', lex COMMA [],
      lex IDENTIFIER ''%x'', lex RETURN [], lex IDENTIFIER ''%r'']"

section \<open>Lemmas\<close>

subsection \<open>Unfolding the examples and the equality of types\<close>

lemmas ty_example_defs =
  ty_a_def ty_b_def enforceIntOrPtrOrVectorType_def enforceIntType_def SymbolicType_setName_def
  SymbolicType_new_def Let_def

lemmas type_eq_defs =
  Type_eq_def SymbolicType_eq_def or_case_def and_case_def isInt_def isFloat_def
  isPtr_def isArray_def isVector_def SymbolicType_is_def Type_is_def
  FloatType_eq_def ArrayType_eq_def VectorType_eq_def PtrType_eq_def IntType_eq_def
  IntType_sizeVar_def IntType_bits_def Type_sizeVar_def Type_typeVar_def Type_var_def
  mkVar_def mkUInt_def enabled_bit_def var_type_bits_def var_bw_bits_def


subsection \<open>Fix-up\<close>

lemma IntType_fixup_idem:
  "Option.bind (IntType_fixup m t) (IntType_fixup m) = IntType_fixup m t"
  by (auto simp: IntType_fixup_def IntType_sizeVar_def Type_sizeVar_def Type_var_def
      split: Option.bind_splits)

lemma SymbolicType_fixup_idem:
  "Option.bind (SymbolicType_fixup m t) (SymbolicType_fixup m) = SymbolicType_fixup m t"
proof (cases "SymbolicType_fixup m t")
  case None
  then show ?thesis by simp
next
  case (Some r)
  then obtain tv where tv: "Type_typeVar (sym_opname t) = Some tv"
    by (auto simp: SymbolicType_fixup_def split: Option.bind_splits)
  let ?n = "getUInt m tv"
  from Some tv have rng: "?n \<le> 4" and en: "push_bit ?n 1 AND enabled t \<noteq> 0"
    by (auto simp: SymbolicType_fixup_def Let_def split: if_splits)
  from rng have "?n = 0 \<or> ?n = 1 \<or> ?n = 2 \<or> ?n = 3 \<or> ?n = 4" by arith
  then have "SymbolicType_fixup m r = Some r"
  proof (elim disjE)
    assume n: "?n = 0"
    with Some tv en obtain i' where i': "IntType_fixup m (sym_i t) = Some i'"
      and r: "r = t\<lparr>sym_typ := TyInt, sym_i := i'\<rparr>"
      by (auto simp: SymbolicType_fixup_def Let_def TypeNum_of_def split: Option.bind_splits if_splits)
    from i' have "IntType_fixup m i' = Some i'"
      using IntType_fixup_idem [of m "sym_i t"] by simp
    with tv n en r show ?thesis
      by (simp add: SymbolicType_fixup_def Let_def TypeNum_of_def)
  qed (use Some tv en in \<open>auto simp: SymbolicType_fixup_def Let_def TypeNum_of_def split: if_splits\<close>)
  with Some show ?thesis by simp
qed

subsection \<open>The refinement checker\<close>






lemma check_refinement_eq:
  "check_refinement s (errs, trace) gq dom_a ap dom_b bp =
     (errs @ answer_errors s (zip (refinement_queries (gq |\<union>| snd ap) dom_a (fst ap) dom_b (fst bp))
               [''Source is more defined than target'', ''Target is more poisonous than source'', ''value mismatch'']),
      trace @ refinement_queries (gq |\<union>| snd ap) dom_a (fst ap) dom_b (fst bp))"
  by (simp add: check_refinement_def Let_def refinement_queries_def answer_errors_def is_sat_def
      mkForAll_def notImplies_def neq_def Errors_add_def split: Result.splits)

lemma Forall_unsat: "(\<And>m'. \<not> eval_bool m' body) \<Longrightarrow> \<not> eval_bool m (Forall qs body)"
  by auto

lemma refl_unsat:
  assumes "q \<in> set (refinement_queries qs d a d a)"
  shows "\<not> eval_bool m q"
  using assms by (auto simp: refinement_queries_def)

lemma sound_not_sat: "sound s \<Longrightarrow> \<not> eval_bool m q \<Longrightarrow> \<forall>m. \<not> eval_bool m q \<Longrightarrow> \<not> is_sat (s q)"
  by (auto simp: sound_def is_sat_def split: Result.splits)

lemma check_refinement_refl:
  assumes "sound s"
  shows "fst (check_refinement s (errs, trace) gq d ap d ap) = errs"
proof -
  have "\<not> is_sat (s q)" if "q \<in> set (refinement_queries (gq |\<union>| snd ap) d (fst ap) d (fst ap))" for q
    using assms refl_unsat [OF that] by (auto simp: sound_def is_sat_def split: Result.splits)
  then show ?thesis
    by (simp add: check_refinement_eq answer_errors_def refinement_queries_def)
qed



lemma emplace_all_find:
  "emplace_all is tv n = (case tv n of Some x \<Rightarrow> Some x | None \<Rightarrow> find (\<lambda>i. getName i = n) is)"
  by (induction "is" arbitrary: tv) (auto split: option.splits)

lemma find_distinct:
  "distinct (map f xs) \<Longrightarrow> x \<in> set xs \<Longrightarrow> find (\<lambda>i. f i = f x) xs = Some x"
  by (induction xs) (auto simp: image_iff)

lemma emplace_all_distinct:
  "distinct (map getName is) \<Longrightarrow> v \<in> set is \<Longrightarrow> emplace_all is Map.empty (getName v) = Some v"
  by (simp add: emplace_all_find find_distinct)

lemma State_at_distinct:
  "distinct (map (\<lambda>e. val_addr (fst e)) vs) \<Longrightarrow> (k, x) \<in> set vs \<Longrightarrow> State_at vs k = Inr x"
  by (induction vs) (auto simp: image_iff)

lemma each_var_refl:
  assumes "sound s"
    and "\<And>var val. (var, val) \<in> set vs \<Longrightarrow> is_Instr var \<Longrightarrow>
           tgt_vals (getName var) = Some var \<and> State_at (state_values st) var = Inr val"
  shows "\<exists>tr. each_var s tgt_vals st vs (errs, trace) = Inr (errs, tr)"
  using assms(2)
proof (induction vs arbitrary: trace)
  case Nil
  then show ?case by simp
next
  case (Cons e vs)
  obtain var val where e: "e = (var, val)" by (cases e)
  have IH: "\<exists>tr. each_var s tgt_vals st vs (errs, trace') = Inr (errs, tr)" for trace'
  proof (rule Cons.IH)
    fix var val assume "(var, val) \<in> set vs" "is_Instr var"
    then show "tgt_vals (getName var) = Some var \<and> State_at (state_values st) var = Inr val"
      using Cons.prems [of var val] by simp
  qed
  show ?case
  proof (cases "(case getName var of [] \<Rightarrow> True | c # cs \<Rightarrow> c \<noteq> CHR ''%'') \<or> \<not> is_Instr var")
    case True
    then show ?thesis using IH [of trace] e by (simp add: Let_def)
  next
    case False
    then have "tgt_vals (getName var) = Some var" "State_at (state_values st) var = Inr val"
      using Cons.prems [of var val] e by auto
    moreover obtain tr' where "check_refinement s (errs, trace) (quant_vars st) (BoolConst True) val (BoolConst True) val = (errs, tr')"
      using check_refinement_refl [OF assms(1), of errs trace "quant_vars st" "BoolConst True" val]
      by (metis fst_conv surj_pair)
    ultimately show ?thesis using False IH [of tr'] e by (simp add: Let_def)
  qed
qed






lemma var_names_empty [simp]: "var_names {||} = {}"
  by (simp add: var_names_def)

lemma mismatch_solver_sound: "sound mismatch_solver"
proof -
  have "m' = model_x_neq_y" if "\<forall>nm. m' nm = model_x_neq_y nm" for m'
    using that by (simp add: fun_eq_iff)
  then have "eval_bool model_x_neq_y goal_x_neq_y"
    by (auto simp: goal_x_neq_y_def model_x_neq_y_def)
  then show ?thesis
    by (auto simp: sound_def mismatch_solver_def split: if_splits)
qed

lemma unsat_solver_sound: "sound unsat_solver"
  by (simp add: sound_def unsat_solver_def)

subsection \<open>Constants\<close>

lemma div_ub_sem:
  "eval_bool m (div_ub a b u sign) =
     (eval_bool m u \<and> eval_bv m b \<noteq> 0 \<and>
      (sign \<longrightarrow> \<not> (eval_bv m a = eval_bv m (IntMin (bits b)) \<and>
                      eval_bv m b = eval_bv m (mkInt (- 1) (bits b)))))"
  by (auto simp: div_ub_def Let_def neq_def mkUInt_def)

subsection \<open>The identifier table of the parser only grows\<close>


lemma ids_get_new_token: "get_new_token st = Some (t, st1) \<Longrightarrow> identifiers st1 = identifiers st"
  by (auto simp: get_new_token_def split: list.splits lexeme.splits if_splits)

lemma ids_tokenizer_next: "tokenizer_next st = Some (t, st1) \<Longrightarrow> identifiers st1 = identifiers st"
  by (auto simp: tokenizer_next_def dest!: ids_get_new_token split: if_splits)

lemma ids_peek: "peek st = Some (t, st1) \<Longrightarrow> identifiers st1 = identifiers st"
  by (auto simp: peek_def dest!: ids_get_new_token split: if_splits Option.bind_splits)

lemma ids_consumeIf: "consumeIf e st = Some (b, st1) \<Longrightarrow> identifiers st1 = identifiers st"
  by (auto simp: consumeIf_def dest!: ids_peek split: if_splits Option.bind_splits)

lemma ids_ensure: "ensure e st = Some st1 \<Longrightarrow> identifiers st1 = identifiers st"
  by (auto simp: ensure_def dest!: ids_tokenizer_next split: if_splits Option.bind_splits)

lemma ids_unget: "unget t st = Some st1 \<Longrightarrow> identifiers st1 = identifiers st"
  by (auto simp: unget_def split: if_splits)

lemma ids_parse_type: "parse_type optional st = Some (ty, st1) \<Longrightarrow> identifiers st1 = identifiers st"
  by (auto simp: parse_type_def dest!: ids_tokenizer_next ids_unget split: if_splits Option.bind_splits)

lemma ids_parse_operand:
  "parse_operand ty st = Some (v, st1) \<Longrightarrow> identifiers st \<subseteq>\<^sub>m identifiers st1"
  by (auto simp: parse_operand_def get_constant_def Let_def map_le_def
      dest!: ids_tokenizer_next split: if_splits Option.bind_splits option.splits)

lemma ids_parse_nsw_nuw_loop:
  "parse_nsw_nuw_loop flags st = Some (fl, st1) \<Longrightarrow> identifiers st1 = identifiers st"
proof (induction flags st rule: parse_nsw_nuw_loop.induct)
  case (1 flags st)
  from "1.prems" obtain nsw sa where a: "consumeIf NSW st = Some (nsw, sa)"
    by (subst (asm) parse_nsw_nuw_loop.simps) (auto split: Option.bind_splits)
  show ?case
  proof (cases nsw)
    case True
    with a "1.prems" have "parse_nsw_nuw_loop (flags \<union> {BinOp_NSW}) sa = Some (fl, st1)"
      by (subst (asm) parse_nsw_nuw_loop.simps) simp
    with "1.IH"(1) [OF a refl True] ids_consumeIf [OF a] show ?thesis by simp
  next
    case False
    with a "1.prems" obtain nuw sb where b: "consumeIf NUW sa = Some (nuw, sb)"
      by (subst (asm) parse_nsw_nuw_loop.simps) (auto split: Option.bind_splits)
    show ?thesis
    proof (cases nuw)
      case True
      with a b False "1.prems" have "parse_nsw_nuw_loop (flags \<union> {BinOp_NUW}) sb = Some (fl, st1)"
        by (subst (asm) parse_nsw_nuw_loop.simps) simp
      with "1.IH"(2) [OF a refl False b refl True] ids_consumeIf [OF a] ids_consumeIf [OF b]
      show ?thesis by simp
    next
      case nuw: False
      with a b False "1.prems" have "st1 = sb"
        by (subst (asm) parse_nsw_nuw_loop.simps) simp
      with ids_consumeIf [OF a] ids_consumeIf [OF b] show ?thesis by simp
    qed
  qed
qed

lemma ids_parse_binop_flags:
  "parse_binop_flags t st = Some (fl, st1) \<Longrightarrow> identifiers st1 = identifiers st"
  by (auto simp: parse_binop_flags_def parse_nsw_nuw_def parse_exact_def
      dest!: ids_parse_nsw_nuw_loop ids_consumeIf split: if_splits Option.bind_splits)

lemma ids_parse_binop:
  assumes "parse_binop name t st = Some (i, st5)"
  shows "identifiers st \<subseteq>\<^sub>m identifiers st5"
proof -
  from assms obtain flags st1 where 1: "parse_binop_flags t st = Some (flags, st1)"
    by (auto simp: parse_binop_def split: Option.bind_splits)
  with assms obtain type st2 where 2: "parse_type True st1 = Some (type, st2)"
    by (auto simp: parse_binop_def split: Option.bind_splits)
  with 1 assms obtain a st3 where 3: "parse_operand type st2 = Some (a, st3)"
    by (auto simp: parse_binop_def split: Option.bind_splits)
  with 1 2 assms obtain st4 where 4: "parse_comma st3 = Some st4"
    by (auto simp: parse_binop_def split: Option.bind_splits)
  with 1 2 3 assms obtain b st5' where 5: "parse_operand type st4 = Some (b, st5')"
    by (auto simp: parse_binop_def split: Option.bind_splits)
  with 1 2 3 4 assms have "identifiers st5 = identifiers st5'"
    by (auto simp: parse_binop_def new_instr_def split: Option.bind_splits)
  with ids_parse_binop_flags [OF 1] ids_parse_type [OF 2] ids_parse_operand [OF 3]
    ids_ensure [OF 4 [unfolded parse_comma_def]] ids_parse_operand [OF 5]
  show ?thesis by (auto intro: map_le_trans)
qed

lemma ids_parse_instr:
  assumes "parse_instr name st = Some (i, st3)"
  shows "identifiers st \<subseteq>\<^sub>m identifiers st3"
proof -
  from assms obtain st1 where 1: "ensure EQUALS st = Some st1"
    by (auto simp: parse_instr_def split: Option.bind_splits)
  with assms obtain t st2 where 2: "tokenizer_next st1 = Some (t, st2)"
    by (auto simp: parse_instr_def split: Option.bind_splits)
  with 1 assms have 3: "parse_binop name t st2 = Some (i, st3)"
    by (auto simp: parse_instr_def split: Option.bind_splits if_splits)
  from ids_ensure [OF 1] ids_tokenizer_next [OF 2] ids_parse_binop [OF 3]
  show ?thesis by simp
qed

lemma ids_parse_return:
  assumes "parse_return st = Some (i, st3)"
  shows "identifiers st \<subseteq>\<^sub>m identifiers st3"
proof -
  from assms obtain type st1 where 1: "parse_type True st = Some (type, st1)"
    by (auto simp: parse_return_def split: Option.bind_splits)
  with assms obtain v st2 where 2: "parse_operand type st1 = Some (v, st2)"
    by (auto simp: parse_return_def split: Option.bind_splits)
  with 1 assms have "identifiers st3 = identifiers st2"
    by (auto simp: parse_return_def new_instr_def split: Option.bind_splits)
  with ids_parse_type [OF 1] ids_parse_operand [OF 2] show ?thesis by simp
qed

lemma ids_emplace: "ids \<subseteq>\<^sub>m emplace ids name v"
  by (auto simp: emplace_def map_le_def split: option.splits)

lemma ids_parse_fn_loop:
  "parse_fn_loop bb st = Some st' \<Longrightarrow> identifiers st \<subseteq>\<^sub>m identifiers st'"
proof (induction bb st rule: parse_fn_loop.induct)
  case (1 bb st)
  from "1.prems" obtain t st1 where a: "tokenizer_next st = Some (t, st1)"
    by (subst (asm) parse_fn_loop.simps) (auto split: Option.bind_splits)
  note ia = ids_tokenizer_next [OF a]
  consider (ident) "t = IDENTIFIER" | (label) "t \<noteq> IDENTIFIER" "t = LABEL"
    | (ret) "t \<noteq> IDENTIFIER" "t \<noteq> LABEL" "t = RETURN"
    | (unreach) "t \<noteq> IDENTIFIER" "t \<noteq> LABEL" "t \<noteq> RETURN" "t = UNREACH"
    | (other) "t \<noteq> IDENTIFIER" "t \<noteq> LABEL" "t \<noteq> RETURN" "t \<noteq> UNREACH"
    by blast
  then show ?case
  proof cases
    case ident
    with a "1.prems" obtain i st2 where b: "parse_instr (str (yylval st1)) st1 = Some (i, st2)"
      by (subst (asm) parse_fn_loop.simps) (auto simp: Let_def split: Option.bind_splits)
    let ?st3 = "st2\<lparr>identifiers := emplace (identifiers st2) (str (yylval st1)) (fst i),
                     fn := addIntr (fn st2) bb i\<rparr>"
    from ident a b "1.prems" have c: "parse_fn_loop bb ?st3 = Some st'"
      by (subst (asm) parse_fn_loop.simps) (simp add: Let_def)
    have "identifiers ?st3 \<subseteq>\<^sub>m identifiers st'"
      by (rule "1.IH"(1) [OF a refl ident refl b refl c])
    moreover have "identifiers st2 \<subseteq>\<^sub>m identifiers ?st3" by (simp add: ids_emplace)
    ultimately show ?thesis using ia ids_parse_instr [OF b] by (auto intro: map_le_trans)
  next
    case label
    let ?st2 = "st1\<lparr>fn := getBB (fn st1) (str (yylval st1))\<rparr>"
    from label a "1.prems" have c: "parse_fn_loop (str (yylval st1)) ?st2 = Some st'"
      by (subst (asm) parse_fn_loop.simps) simp
    have "identifiers ?st2 \<subseteq>\<^sub>m identifiers st'"
      by (rule "1.IH"(2) [OF a refl label c])
    then show ?thesis using ia by simp
  next
    case ret
    with a "1.prems" obtain i st2 where b: "parse_return st1 = Some (i, st2)"
      by (subst (asm) parse_fn_loop.simps) (auto split: Option.bind_splits)
    let ?st3 = "st2\<lparr>fn := addIntr (fn st2) bb i\<rparr>"
    from ret a b "1.prems" have c: "parse_fn_loop bb ?st3 = Some st'"
      by (subst (asm) parse_fn_loop.simps) simp
    have "identifiers ?st3 \<subseteq>\<^sub>m identifiers st'"
      by (rule "1.IH"(3) [OF a refl ret b refl c])
    then show ?thesis using ia ids_parse_return [OF b] by (auto intro: map_le_trans)
  next
    case unreach
    obtain i st2 where b: "new_instr Unreachable st1 = (i, st2)" by (cases "new_instr Unreachable st1")
    let ?st3 = "st2\<lparr>fn := addIntr (fn st2) bb i\<rparr>"
    from unreach a b "1.prems" have c: "parse_fn_loop bb ?st3 = Some st'"
      by (subst (asm) parse_fn_loop.simps) simp
    have "identifiers ?st3 \<subseteq>\<^sub>m identifiers st'"
      by (rule "1.IH"(4) [OF a refl unreach b [symmetric] c])
    moreover from b have "identifiers st2 = identifiers st1" by (auto simp: new_instr_def)
    ultimately show ?thesis using ia by simp
  next
    case other
    with a "1.prems" have "unget t st1 = Some st'"
      by (subst (asm) parse_fn_loop.simps) simp
    then show ?thesis using ia ids_unget by simp
  qed
qed


section \<open>The refinement checker: its goals, their quantifiers, its errors\<close>


text \<open>
  C1 (as amended). The refinement checker sends exactly three universally quantified
  goals over the source state A and the target state B, in this order: A.domain and not
  B.domain, with the error "Source is more defined than target"; A.domain and
  A.non_poison and not B.non_poison, with "Target is more poisonous than source";
  A.domain and A.non_poison and A.value different from B.value, with "value mismatch"
  (in lower case). Each goal the solver finds satisfiable adds exactly one entry, after
  the entries already there.
\<close>

theorem check_refinement_three_queries:
  "check_refinement s (errs, trace) gq dom_a (a, qa) dom_b (b, qb) =
     (let qs = gq |\<union>| qa;
          q1 = Forall qs (LAnd dom_a (LNot dom_b));
          q2 = Forall qs (LAnd dom_a (LAnd (non_poison a) (LNot (non_poison b))));
          q3 = Forall qs (LAnd (LAnd dom_a (non_poison a))
                              (LNot (Equals (sv_value a) (sv_value b))))
      in (errs
            @ (if is_sat (s q1) then [''Source is more defined than target''] else [])
            @ (if is_sat (s q2) then [''Target is more poisonous than source''] else [])
            @ (if is_sat (s q3) then [''value mismatch''] else []),
          trace @ [q1, q2, q3]))"
  by (simp add: check_refinement_eq refinement_queries_def answer_errors_def Let_def)

text \<open>
  The specification names the third error "Value mismatch". Comparing the values
  \<open>%x\<close> and \<open>%y\<close>, with a sound solver that finds the model of \<open>%x \<noteq> %y\<close>, the
  checker adds "value mismatch" and nothing else.
\<close>

theorem check_refinement_message_counterexample:
  "sound mismatch_solver \<and>
   fst (check_refinement mismatch_solver ([], []) {||}
          (BoolConst True) (sv_x, {||}) (BoolConst True) (sv_y, {||})) = [''value mismatch''] \<and>
   ''Value mismatch'' \<notin> set (fst (check_refinement mismatch_solver ([], []) {||}
          (BoolConst True) (sv_x, {||}) (BoolConst True) (sv_y, {||})))"
  by (simp add: mismatch_solver_sound check_refinement_eq refinement_queries_def
      answer_errors_def is_sat_def mismatch_solver_def goal_x_neq_y_def sv_x_def sv_y_def)







text \<open>
  C3. Reflexivity of refinement. The symbolic executor is deterministic (Section 5 of
  the specification), so verifying \<open>f \<Rightarrow> f\<close> compares an executed state with itself.
  For every well-formed function and every sound solver, with or without the check of
  each variable, \<open>Transform::verify\<close> returns normally with an empty error list.
\<close>

theorem verify_reflexive:
  assumes "sound s" and "wf_exec instrs st"
  shows "\<exists>trace. verify s opts instrs st st = Inr ([], trace)"
proof -
  have ev: "\<exists>tr. each_var s (emplace_all instrs Map.empty) st (state_values st) ([], []) = Inr ([], tr)"
  proof (rule each_var_refl [OF assms(1)])
    fix var val assume "(var, val) \<in> set (state_values st)" "is_Instr var"
    with assms(2) show "emplace_all instrs Map.empty (getName var) = Some var \<and> State_at (state_values st) var = Inr val"
      by (auto simp: wf_exec_def emplace_all_distinct State_at_distinct)
  qed
  have ret: "\<exists>tr'. check_return s st st ([], tr) = ([], tr')" for tr
    using check_refinement_refl [OF assms(1), of "[]" tr "quant_vars st" "returnDomain st" "returnVal st"]
    by (auto simp: check_return_def) (metis fst_conv surj_pair)
  show ?thesis
  proof (cases "check_each_var opts")
    case True
    from ev obtain tr where "each_var s (emplace_all instrs Map.empty) st (state_values st) ([], []) = Inr ([], tr)" by auto
    with True ret [of tr] show ?thesis by (auto simp: verify_def Let_def)
  next
    case False
    with ret [of "[]"] show ?thesis by (auto simp: verify_def Let_def)
  qed
qed

lemma wf_exec_example: "wf_exec [val_r, val_ret] state_x1"
  by (simp add: wf_exec_def state_x1_def val_r_def val_ret_def val_x_def)

theorem verify_reflexive_witness:
  "sound mismatch_solver \<and> wf_exec [val_r, val_ret] state_x1 \<and>
   (\<exists>trace. verify mismatch_solver \<lparr>check_each_var = True\<rparr> [val_r, val_ret] state_x1 state_x1
              = Inr ([], trace))"
  using verify_reflexive [OF mismatch_solver_sound wf_exec_example, of "\<lparr>check_each_var = True\<rparr>"]
  by (simp add: mismatch_solver_sound wf_exec_example)


text \<open>
  C9. If exactly one of the two states has recorded a return, \<open>Transform::verify\<close> adds
  exactly one error to those of the checks of each variable, "Source returns but target
  doesn't" when only the source returned and "Target returns but source doesn't"
  otherwise, and sends no further goal to the solver; if neither state returned, it adds
  no error and sends no goal.
\<close>

theorem verify_return_mismatch:
  assumes "(if check_each_var opts
            then each_var s (emplace_all tgt_instrs Map.empty) tgt_state (state_values src_state) ([], [])
            else Inr ([], [])) = Inr (errs0, trace0)"
    and "\<not> (fnReturned src_state \<and> fnReturned tgt_state)"
  shows "verify s opts tgt_instrs src_state tgt_state =
     Inr (if fnReturned src_state then (errs0 @ [''Source returns but target doesn't''], trace0)
          else if fnReturned tgt_state then (errs0 @ [''Target returns but source doesn't''], trace0)
          else (errs0, trace0))"
  using assms by (auto simp: verify_def Let_def check_return_def Errors_add_def)

theorem verify_return_mismatch_witness:
  "verify unsat_solver \<lparr>check_each_var = False\<rparr> [] state_x1 state_unreachable
     = Inr ([''Source returns but target doesn't''], []) \<and>
   verify unsat_solver \<lparr>check_each_var = False\<rparr> [val_r, val_ret] state_unreachable state_x1
     = Inr ([''Target returns but source doesn't''], []) \<and>
   verify unsat_solver \<lparr>check_each_var = False\<rparr> [] state_unreachable state_unreachable
     = Inr ([], [])"
  using verify_return_mismatch [of "\<lparr>check_each_var = False\<rparr>" unsat_solver "[]"
          state_unreachable state_x1 "[]" "[]"]
    verify_return_mismatch [of "\<lparr>check_each_var = False\<rparr>" unsat_solver "[val_r, val_ret]"
          state_x1 state_unreachable "[]" "[]"]
    verify_return_mismatch [of "\<lparr>check_each_var = False\<rparr>" unsat_solver "[]"
          state_unreachable state_unreachable "[]" "[]"]
  by (simp add: state_x1_def state_unreachable_def)


section \<open>Constants\<close>

text \<open>
  C4. For every constant, the state value \<open>Constant::toSMT\<close> produces has \<open>non_poison\<close>
  identically true, and what it conjoins to the state's \<open>ub\<close> is the UB predicate of
  \<open>toSMT_cnst\<close>: true for a named constant and for a function application; for a binary
  operation the conjunction of the UB predicates of the two operands with, for UDIV and
  SDIV, the divisor being nonzero and, for SDIV, not (dividend = IntMin and divisor = -1).
\<close>

theorem Constant_toSMT_non_poison_ub:
  assumes "Constant_toSMT s c = Some (sv, s')"
  shows "non_poison sv = BoolConst True \<and>
    (\<exists>v u. toSMT_cnst c = Some (v, u) \<and> sv_value sv = v \<and> ub s' = LAnd (ub s) u \<and>
      (case c of
         Constant ty nm \<Rightarrow> u = BoolConst True
       | ConstantFn_obj ty nm f args \<Rightarrow> u = BoolConst True
       | ConstantBinOp_obj ty nm lhs rhs op \<Rightarrow>
           (\<exists>va ua vb ub'. toSMT_cnst lhs = Some (va, ua) \<and> toSMT_cnst rhs = Some (vb, ub') \<and>
              (\<forall>m. eval_bool m u =
                 (eval_bool m ua \<and> eval_bool m ub' \<and>
                  (op = ConstantBinOp_UDIV \<or> op = ConstantBinOp_SDIV \<longrightarrow> eval_bv m vb \<noteq> 0) \<and>
                  (op = ConstantBinOp_SDIV \<longrightarrow>
                     \<not> (eval_bv m va = eval_bv m (IntMin (bits vb)) \<and>
                        eval_bv m vb = eval_bv m (mkInt (- 1) (bits vb)))))))))"
proof -
  from assms obtain v u where vu: "toSMT_cnst c = Some (v, u)"
    and sv: "sv = \<lparr>sv_value = v, non_poison = BoolConst True\<rparr>" and s': "s' = addUB s u"
    by (auto simp: Constant_toSMT_def split: Option.bind_splits)
  have "case c of
         Constant ty nm \<Rightarrow> u = BoolConst True
       | ConstantFn_obj ty nm f args \<Rightarrow> u = BoolConst True
       | ConstantBinOp_obj ty nm lhs rhs op \<Rightarrow>
           (\<exists>va ua vb ub'. toSMT_cnst lhs = Some (va, ua) \<and> toSMT_cnst rhs = Some (vb, ub') \<and>
              (\<forall>m. eval_bool m u =
                 (eval_bool m ua \<and> eval_bool m ub' \<and>
                  (op = ConstantBinOp_UDIV \<or> op = ConstantBinOp_SDIV \<longrightarrow> eval_bv m vb \<noteq> 0) \<and>
                  (op = ConstantBinOp_SDIV \<longrightarrow>
                     \<not> (eval_bv m va = eval_bv m (IntMin (bits vb)) \<and>
                        eval_bv m vb = eval_bv m (mkInt (- 1) (bits vb)))))))"
  proof (cases c)
    case (Constant ty nm)
    with vu show ?thesis by (auto split: Option.bind_splits)
  next
    case (ConstantFn_obj ty nm f args)
    with vu show ?thesis by simp
  next
    case (ConstantBinOp_obj ty nm lhs rhs op)
    with vu obtain va ua vb ub' where l: "toSMT_cnst lhs = Some (va, ua)"
      and r: "toSMT_cnst rhs = Some (vb, ub')"
      by (auto split: Option.bind_splits)
    with vu ConstantBinOp_obj have "eval_bool m u =
                 (eval_bool m ua \<and> eval_bool m ub' \<and>
                  (op = ConstantBinOp_UDIV \<or> op = ConstantBinOp_SDIV \<longrightarrow> eval_bv m vb \<noteq> 0) \<and>
                  (op = ConstantBinOp_SDIV \<longrightarrow>
                     \<not> (eval_bv m va = eval_bv m (IntMin (bits vb)) \<and>
                        eval_bv m vb = eval_bv m (mkInt (- 1) (bits vb)))))" for m
      by (cases op) (auto simp: div_ub_sem Let_def)
    with l r ConstantBinOp_obj show ?thesis by simp
  qed
  with vu sv s' show ?thesis by (simp add: addUB_def)
qed

text \<open>
  The constant \<open>(C / D)\<close> over \<open>i8\<close>: its UB predicate is false in a model with
  \<open>D = 0\<close> and in one with \<open>C = -128\<close>, \<open>D = -1\<close>, and true with \<open>C = 7\<close>,
  \<open>D = 2\<close>.
\<close>

lemma const_sdiv_toSMT:
  "Constant_toSMT state_init const_sdiv =
     Some (\<lparr>sv_value = BVsdiv (BVVar ''C'' 8) (BVVar ''D'' 8), non_poison = BoolConst True\<rparr>,
           addUB state_init (div_ub (BVVar ''C'' 8) (BVVar ''D'' 8)
              (LAnd (BoolConst True) (BoolConst True)) True))"
  by (simp add: Constant_toSMT_def const_sdiv_def ConstantBinOp_def Type_bits_def i8_def
      IntType_new_def IntType_bits_def mkVar_def)

theorem Constant_toSMT_witness:
  "\<exists>sv s'. Constant_toSMT state_init const_sdiv = Some (sv, s') \<and>
     non_poison sv = BoolConst True \<and>
     \<not> eval_bool (\<lambda>nm. 0) (ub s') \<and>
     \<not> eval_bool (\<lambda>nm. if nm = ''C'' then 128 else 255) (ub s') \<and>
     eval_bool (\<lambda>nm. if nm = ''C'' then 7 else 2) (ub s')"
proof -
  let ?sv = "\<lparr>sv_value = BVsdiv (BVVar ''C'' 8) (BVVar ''D'' 8), non_poison = BoolConst True\<rparr>"
  let ?s' = "addUB state_init (div_ub (BVVar ''C'' 8) (BVVar ''D'' 8)
              (LAnd (BoolConst True) (BoolConst True)) True)"
  have "non_poison ?sv = BoolConst True"
    using Constant_toSMT_non_poison_ub [OF const_sdiv_toSMT] by simp
  moreover have "\<not> eval_bool (\<lambda>nm. 0) (ub ?s')"
    "\<not> eval_bool (\<lambda>nm. if nm = ''C'' then 128 else 255) (ub ?s')"
    "eval_bool (\<lambda>nm. if nm = ''C'' then 7 else 2) (ub ?s')"
    by (simp_all add: addUB_def div_ub_sem state_init_def IntMin_def mkInt_def)
  ultimately show ?thesis using const_sdiv_toSMT by blast
qed


text \<open>
  C10. Constructing a \<open>ConstantFn\<close> throws a \<open>ConstantFnException\<close> if and only if the
  function name is neither "log2" nor "width", or the number of arguments is not one; on
  success the name of the constant is the function name followed by its arguments in
  parentheses.
\<close>

theorem ConstantFn_throws_iff:
  "((\<exists>e. ConstantFn type name args = Inl e) =
      ((name \<noteq> ''log2'' \<and> name \<noteq> ''width'') \<or> length args \<noteq> 1)) \<and>
   (\<forall>c. ConstantFn type name args = Inr c \<longrightarrow>
      (\<exists>a. args = [a] \<and> Constant_getName c = name @ ''('' @ getName a @ '')''))"
proof -
  have "\<exists>a. args = [a] \<and> Constant_getName c = name @ ''('' @ getName a @ '')''"
    if "ConstantFn type name args = Inr c" for c
    using that
    by (cases args; cases "tl args") (auto simp: ConstantFn_def Let_def split: if_splits)
  moreover have "(\<exists>e. ConstantFn type name args = Inl e) =
      ((name \<noteq> ''log2'' \<and> name \<noteq> ''width'') \<or> length args \<noteq> 1)"
    by (auto simp: ConstantFn_def Let_def)
  ultimately show ?thesis by blast
qed

theorem ConstantFn_witness:
  "ConstantFn (IntTy i8) ''width'' [val_x] =
     Inr (ConstantFn_obj (IntTy i8) ''width(%x)'' WIDTH [val_x]) \<and>
   Constant_getName (ConstantFn_obj (IntTy i8) ''width(%x)'' WIDTH [val_x]) = ''width'' @ ''('' @ getName val_x @ '')'' \<and>
   ConstantFn (IntTy i8) ''log2'' [val_x, val_r] =
     Inl (ConstantFnException ''Expected 1 parameter for log2, but got 2'') \<and>
   ConstantFn (IntTy i8) ''abs'' [val_x] = Inl (ConstantFnException ''Unknown function: abs'')"
  using ConstantFn_throws_iff [of "IntTy i8" "''width''" "[val_x]"]
  by (simp add: ConstantFn_def val_x_def)


section \<open>Types\<close>

text \<open>
  What the constraint of \<open>IntType::getTypeConstraints\<close> bounds is the value of the
  width term of the type: a model satisfies it if and only if that value \<open>w\<close> has
  \<open>1 \<le> w \<le> 64\<close>. The width term is the 10-bit variable \<open>opname_bw\<close> of a type whose
  width is open, and the 10-bit numeral of the width, its low ten bits, of a type whose
  width is fixed.
\<close>

lemma IntType_constraints_width_term:
  assumes "defined t \<or> int_opname t \<noteq> []"
  shows "\<exists>bw c. IntType_sizeVar t = Some bw \<and> IntType_getTypeConstraints t = Some c \<and>
           eval_bool m c = (1 \<le> getUInt m bw \<and> getUInt m bw \<le> 64) \<and>
           getUInt m bw = (if defined t then bitwidth t mod 1024
                           else m (int_opname t @ ''_bw'') mod 1024)"
  using assms
  by (auto simp: IntType_getTypeConstraints_def IntType_sizeVar_def Type_sizeVar_def
      Type_var_def neq_def mkUInt_def mkVar_def getUInt_def var_bw_bits_def IntType_bits_def)

text \<open>
  For the open width of the type of \<open>%a\<close> the bound is the one on the width the model
  chooses: 8 is admitted, 0 and 65 are not.
\<close>

lemma IntType_constraints_open_width:
  "\<exists>bw c. IntType_sizeVar (sym_i ty_a) = Some bw \<and>
           IntType_getTypeConstraints (sym_i ty_a) = Some c \<and>
           getUInt all8 bw = 8 \<and> eval_bool all8 c \<and>
           getUInt (\<lambda>nm. 0) bw = 0 \<and> \<not> eval_bool (\<lambda>nm. 0) c \<and>
           getUInt (\<lambda>nm. 65) bw = 65 \<and> \<not> eval_bool (\<lambda>nm. 65) c"
  using IntType_constraints_width_term [of "sym_i ty_a" all8]
    IntType_constraints_width_term [of "sym_i ty_a" "\<lambda>nm. 0"]
    IntType_constraints_width_term [of "sym_i ty_a" "\<lambda>nm. 65"]
  by (auto simp: ty_a_def enforceIntOrPtrOrVectorType_def SymbolicType_setName_def
      SymbolicType_new_def all8_def Let_def)

text \<open>
  For a type of fixed width the constraint judges the width by its low ten bits: it
  holds for \<open>i8\<close> in every model, fails for \<open>i65\<close> and \<open>i1024\<close>, and holds for
  \<open>i1025\<close> and \<open>i1088\<close>.
\<close>

lemma IntType_constraints_fixed_width:
  "holds m (IntType_getTypeConstraints i8) \<and>
   \<not> holds m (IntType_getTypeConstraints (IntType_new 65)) \<and>
   \<not> holds m (IntType_getTypeConstraints (IntType_new 1024)) \<and>
   holds m (IntType_getTypeConstraints (IntType_new 1025)) \<and>
   holds m (IntType_getTypeConstraints (IntType_new 1088))"
  by (simp add: holds_def IntType_getTypeConstraints_def IntType_sizeVar_def IntType_bits_def
      IntType_new_def i8_def neq_def mkUInt_def var_bw_bits_def)

text \<open>
  C5. The specification has the type constraint of an integer type satisfied if and
  only if the width \<open>w\<close> of the type has \<open>1 \<le> w \<le> 64\<close>, and the source says of
  \<open>IntType::getTypeConstraints\<close> that it limits integers to be between 1 and 64 bits.
  The code does not do so for every integer type: from the type token \<open>i1025\<close> the
  parser builds, without a check of the range, the integer type of the fixed width
  1025, which is not between 1 and 64, and the type constraint of this type holds in
  every model.
\<close>

theorem IntType_constraints_i1025:
  "parse_type False (parser_init [Lexed INT_TYPE \<lparr>num = 1025, str = []\<rparr> 1]) =
     Some (IntTy (IntType_new 1025), (parser_init [])\<lparr>yylval := \<lparr>num = 1025, str = []\<rparr>\<rparr>) \<and>
   IntType_bits (IntType_new 1025) = 1025 \<and>
   \<not> (1 \<le> IntType_bits (IntType_new 1025) \<and> IntType_bits (IntType_new 1025) \<le> 64) \<and>
   holds m (IntType_getTypeConstraints (IntType_new 1025))"
  by (simp add: parse_type_def tokenizer_next_def get_new_token_def parser_init_def
      holds_def IntType_getTypeConstraints_def IntType_sizeVar_def IntType_bits_def
      IntType_new_def neq_def mkUInt_def var_bw_bits_def)

text \<open>
  C7. Type fix-up is idempotent under a fixed model: running \<open>fixup(m)\<close> on the result
  of \<open>fixup(m)\<close> returns that result again, with the same chosen category and the same
  width, and a fix-up that fails an assertion fails the same way.
\<close>

theorem Type_fixup_idempotent:
  "Option.bind (Type_fixup m t) (Type_fixup m) = Type_fixup m t"
proof (cases t)
  case (IntTy x)
  then show ?thesis using IntType_fixup_idem [of m x]
    by (auto simp: Type_fixup_def split: Option.bind_splits)
next
  case (SymbolicTy x)
  then show ?thesis using SymbolicType_fixup_idem [of m x]
    by (auto simp: Type_fixup_def split: Option.bind_splits)
qed (simp_all add: Type_fixup_def)

lemma fixup_example:
  "Type_fixup (\<lambda>nm. if nm = ''%a_type'' then 0 else 8) (SymbolicTy ty_a) =
     Some (SymbolicTy (ty_a\<lparr>sym_typ := TyInt, sym_i := (sym_i ty_a)\<lparr>bitwidth := 8\<rparr>\<rparr>))"
  by (simp add: Type_fixup_def SymbolicType_fixup_def IntType_fixup_def IntType_sizeVar_def
      Type_sizeVar_def Type_typeVar_def Type_var_def mkVar_def getUInt_def TypeNum_of_def
      var_type_bits_def var_bw_bits_def Let_def
      ty_a_def enforceIntOrPtrOrVectorType_def SymbolicType_setName_def SymbolicType_new_def)

theorem Type_fixup_idempotent_witness:
  "Type_fixup (\<lambda>nm. if nm = ''%a_type'' then 0 else 8) (SymbolicTy ty_a) =
     Some (SymbolicTy (ty_a\<lparr>sym_typ := TyInt, sym_i := (sym_i ty_a)\<lparr>bitwidth := 8\<rparr>\<rparr>)) \<and>
   Type_fixup (\<lambda>nm. if nm = ''%a_type'' then 0 else 8)
     (SymbolicTy (ty_a\<lparr>sym_typ := TyInt, sym_i := (sym_i ty_a)\<lparr>bitwidth := 8\<rparr>\<rparr>)) =
     Some (SymbolicTy (ty_a\<lparr>sym_typ := TyInt, sym_i := (sym_i ty_a)\<lparr>bitwidth := 8\<rparr>\<rparr>))"
  using Type_fixup_idempotent [of "\<lambda>nm. if nm = ''%a_type'' then 0 else 8" "SymbolicTy ty_a"]
  by (simp add: fixup_example)


text \<open>
  C6 (as amended). Type equality is a predicate of the solver. For two distinct type
  objects: for two integer types it is the equality of their width terms; for a symbolic
  type and a concrete type, in either order, it is the conjunction of the category test
  of the symbolic type with the equality of its variant of that category and the
  concrete type; for two symbolic types it is true in a model exactly when the two
  category variables are equal and, for some category enabled in the left operand, the
  category variable has that category and the two variants of that category are equal.
  The categories enabled in the right operand are not consulted.
\<close>

theorem Type_eq_reduces:
  assumes "pa \<noteq> pb"
  shows "Type_eq (pa, IntTy l) (pb, IntTy r) = IntType_eq l r \<and>
    (\<forall>e. IntType_eq l r = Some e \<longrightarrow>
       (\<exists>x y. IntType_sizeVar l = Some x \<and> IntType_sizeVar r = Some y \<and> e = Equals x y \<and>
          (\<forall>m. eval_bool m e = (getUInt m x = getUInt m y)))) \<and>
    (\<forall>c k. category c = Some k \<longrightarrow>
       Type_eq (pa, SymbolicTy s) (pb, c)
         = and_case (SymbolicType_is s k) (Type_eq (pa, variant s k) (pb, c)) \<and>
       Type_eq (pb, c) (pa, SymbolicTy s)
         = and_case (SymbolicType_is s k) (Type_eq (pa, variant s k) (pb, c))) \<and>
    (\<forall>e. Type_eq (pa, SymbolicTy sl) (pb, SymbolicTy sr) = Some e \<longrightarrow>
       (\<exists>x y. Type_typeVar (sym_opname sl) = Some x \<and> Type_typeVar (sym_opname sr) = Some y \<and>
          (\<forall>m. eval_bool m e =
             (getUInt m x = getUInt m y \<and>
              list_ex (\<lambda>k. enabled_bit sl k \<and> getUInt m x = TypeNum_val k \<and>
                           holds m (Type_eq (pa, variant sl k) (pb, variant sr k)))
                all_categories))))"
proof (intro conjI allI impI)
  show "Type_eq (pa, IntTy l) (pb, IntTy r) = IntType_eq l r"
    using assms by (simp add: Type_eq_def)
next
  fix e assume "IntType_eq l r = Some e"
  then show "\<exists>x y. IntType_sizeVar l = Some x \<and> IntType_sizeVar r = Some y \<and> e = Equals x y \<and>
          (\<forall>m. eval_bool m e = (getUInt m x = getUInt m y))"
    by (auto simp: IntType_eq_def getUInt_def split: Option.bind_splits)
next
  fix c k assume "category c = Some k"
  with assms show "Type_eq (pa, SymbolicTy s) (pb, c)
         = and_case (SymbolicType_is s k) (Type_eq (pa, variant s k) (pb, c))"
    by (auto simp: Type_eq_def SymbolicType_eq_def category_def variant_def isInt_def isFloat_def
        isPtr_def isArray_def isVector_def split: Type.splits)
next
  fix c k assume "category c = Some k"
  with assms show "Type_eq (pb, c) (pa, SymbolicTy s)
         = and_case (SymbolicType_is s k) (Type_eq (pa, variant s k) (pb, c))"
    by (auto simp: Type_eq_def SymbolicType_eq_def category_def variant_def isInt_def isFloat_def
        isPtr_def isArray_def isVector_def split: Type.splits)
next
  fix e assume "Type_eq (pa, SymbolicTy sl) (pb, SymbolicTy sr) = Some e"
  with assms show "\<exists>x y. Type_typeVar (sym_opname sl) = Some x \<and> Type_typeVar (sym_opname sr) = Some y \<and>
          (\<forall>m. eval_bool m e =
             (getUInt m x = getUInt m y \<and>
              list_ex (\<lambda>k. enabled_bit sl k \<and> getUInt m x = TypeNum_val k \<and>
                           holds m (Type_eq (pa, variant sl k) (pb, variant sr k)))
                all_categories))"
    apply (simp add: Type_eq_def SymbolicType_eq_def or_case_def isInt_def isFloat_def
        isPtr_def isArray_def isVector_def SymbolicType_is_def Type_is_def
        FloatType_eq_def ArrayType_eq_def VectorType_eq_def split: Option.bind_splits)
    apply (auto simp: all_categories_def holds_def variant_def getUInt_def mkUInt_def
        var_type_bits_def Type_eq_def FloatType_eq_def ArrayType_eq_def VectorType_eq_def
        Type_typeVar_def Type_var_def mkVar_def)
    done
qed

text \<open>
  The types of \<open>%a\<close> (integer, pointer or vector) and \<open>%b\<close> (integer) as distinct
  objects, in the model that makes both integers of 8 bits.
\<close>

theorem Type_eq_reduces_witness:
  "Type_eq (0, IntTy i8) (1, IntTy (IntType_new 16))
     = Some (Equals (BVConst 10 8) (BVConst 10 16)) \<and>
   Type_eq (0, SymbolicTy ty_a) (1, IntTy i8)
     = and_case (SymbolicType_is ty_a TyInt) (Type_eq (0, variant ty_a TyInt) (1, IntTy i8)) \<and>
   holds both_int8 (Type_eq (0, SymbolicTy ty_a) (1, IntTy i8)) \<and>
   holds both_int8 (Type_eq (0, SymbolicTy ty_a) (1, SymbolicTy ty_b)) \<and>
   \<not> holds (\<lambda>nm. if nm = ''%a_type'' then 0 else 2) (Type_eq (0, SymbolicTy ty_a) (1, SymbolicTy ty_b))"
proof -
  have ne: "(0::nat) \<noteq> 1" by simp
  note T = Type_eq_reduces [OF ne, of i8 "IntType_new 16" ty_a ty_a ty_b]
  from T have "Type_eq (0, IntTy i8) (1, IntTy (IntType_new 16)) = IntType_eq i8 (IntType_new 16)"
    by (rule conjunct1)
  then have 1: "Type_eq (0, IntTy i8) (1, IntTy (IntType_new 16))
     = Some (Equals (BVConst 10 8) (BVConst 10 16))"
    by (simp add: IntType_eq_def IntType_sizeVar_def IntType_bits_def i8_def IntType_new_def
        mkUInt_def var_bw_bits_def)
  have "category (IntTy i8) = Some TyInt" by (simp add: category_def)
  with T have 2: "Type_eq (0, SymbolicTy ty_a) (1, IntTy i8)
     = and_case (SymbolicType_is ty_a TyInt) (Type_eq (0, variant ty_a TyInt) (1, IntTy i8))"
    by blast
  have 3: "holds both_int8 (Type_eq (0, SymbolicTy ty_a) (1, IntTy i8))"
    "holds both_int8 (Type_eq (0, SymbolicTy ty_a) (1, SymbolicTy ty_b))"
    "\<not> holds (\<lambda>nm. if nm = ''%a_type'' then 0 else 2)
        (Type_eq (0, SymbolicTy ty_a) (1, SymbolicTy ty_b))"
    by (simp_all add: type_eq_defs ty_example_defs holds_def both_int8_def i8_def IntType_new_def)
  from 1 2 3 show ?thesis by blast
qed

text \<open>
  The specification takes the disjunction over the categories the two symbolic types
  share. The type of \<open>%a\<close> has the pointer category enabled and the type of \<open>%b\<close> has
  not; in the model that gives both category variables the pointer category the
  predicate of the code is true, and the disjunction over the shared categories is false.
\<close>

theorem Type_eq_shared_counterexample:
  "holds (\<lambda>nm. 2) (Type_eq (0, SymbolicTy ty_a) (1, SymbolicTy ty_b)) \<and>
   \<not> spec_symbolic_eq (\<lambda>nm. 2) 0 ty_a 1 ty_b"
  by (simp add: type_eq_defs ty_example_defs holds_def spec_symbolic_eq_def all_categories_def
      variant_def)


section \<open>The parser\<close>

text \<open>
  C8. When the parser reads an operand that is an identifier not bound in the identifier
  table of the current function, it creates a new \<open>Input\<close> of that name, registers it
  as an input of the function and binds the identifier to it. In every later state of
  the parse of that function (a state whose table extends this one: the parser never
  removes or rebinds an identifier before the next function starts) an operand of the
  same identifier resolves to this input, and the binding is still there when the parse
  of the function body ends.
\<close>

theorem parse_operand_implicit_input:
  assumes "tokenizer_next st = Some (IDENTIFIER, st1)"
    and "identifiers st1 (str (yylval st1)) = None"
  shows "\<exists>st2. parse_operand type st = Some (next_addr st1, st2) \<and>
           inputs (fn st2) = inputs (fn st1) @ [(next_addr st1, Input (dup type) (str (yylval st1)))] \<and>
           identifiers st2 = (identifiers st1)(str (yylval st1) \<mapsto> next_addr st1) \<and>
           (\<forall>st3 st4 type'. identifiers st2 \<subseteq>\<^sub>m identifiers st3 \<and>
              tokenizer_next st3 = Some (IDENTIFIER, st4) \<and> str (yylval st4) = str (yylval st1) \<longrightarrow>
              parse_operand type' st3 = Some (next_addr st1, st4)) \<and>
           (\<forall>st3 bb st4. identifiers st2 \<subseteq>\<^sub>m identifiers st3 \<and> parse_fn_loop bb st3 = Some st4 \<longrightarrow>
              identifiers st4 (str (yylval st1)) = Some (next_addr st1))"
proof -
  let ?id = "str (yylval st1)" and ?v = "next_addr st1"
  let ?st2 = "st1\<lparr>fn := addInput (fn st1) (?v, Input (dup type) ?id),
                   identifiers := (identifiers st1)(?id \<mapsto> ?v),
                   next_addr := Suc ?v\<rparr>"
  from assms have 1: "parse_operand type st = Some (?v, ?st2)"
    by (simp add: parse_operand_def Let_def)
  have 2: "parse_operand type' st3 = Some (?v, st4)"
    if "identifiers ?st2 \<subseteq>\<^sub>m identifiers st3" "tokenizer_next st3 = Some (IDENTIFIER, st4)"
      "str (yylval st4) = ?id" for st3 st4 type'
  proof -
    from that(1) have "identifiers st3 ?id = Some ?v"
      by (auto simp: map_le_def dom_def)
    with ids_tokenizer_next [OF that(2)] that(3) have "identifiers st4 (str (yylval st4)) = Some ?v"
      by simp
    with that(2) show ?thesis by (simp add: parse_operand_def Let_def)
  qed
  have 3: "identifiers st4 ?id = Some ?v"
    if "identifiers ?st2 \<subseteq>\<^sub>m identifiers st3" "parse_fn_loop bb st3 = Some st4" for st3 bb st4
  proof -
    from that(1) ids_parse_fn_loop [OF that(2)] have "identifiers ?st2 \<subseteq>\<^sub>m identifiers st4"
      by (rule map_le_trans)
    then show ?thesis by (auto simp: map_le_def dom_def)
  qed
  have 4: "inputs (fn ?st2) = inputs (fn st1) @ [(?v, Input (dup type) ?id)]"
    "identifiers ?st2 = (identifiers st1)(?id \<mapsto> ?v)"
    by (simp_all add: addInput_def)
  from 1 2 3 4 show ?thesis by blast
qed

text \<open>
  The operand \<open>%x\<close> at the start of a function, and the body
  \<open>%r = add %x, %x; ret %r\<close>: one input at address 0, both operands of the addition
  refer to it, the addition is at address 1 and the return refers to it.
\<close>

lemma parse_example:
  "map_option (\<lambda>st. (inputs (fn st), BBs (fn st), identifiers st ''%x'', identifiers st ''%r''))
     (parse_fn_loop [] (parser_init toks_add_x_x)) =
   Some ([(0, Input (SymbolicTy SymbolicType_new) ''%x'')],
         [([], [(1, BinOp (SymbolicTy SymbolicType_new) ''%r'' 0 0 Add {}),
                (2, Return (SymbolicTy SymbolicType_new) 1)])],
         Some 0, Some 1)"
  by code_simp

lemma tokenizer_next_example:
  "tokenizer_next (parser_init toks_x) =
     Some (IDENTIFIER, (parser_init [])\<lparr>yylval := \<lparr>num = 0, str = ''%x''\<rparr>\<rparr>)"
  by (simp add: tokenizer_next_def get_new_token_def parser_init_def toks_x_def lex_def)

theorem parse_operand_implicit_input_witness:
  "(\<exists>st2. parse_operand (IntTy i8) (parser_init toks_x) = Some (0, st2) \<and>
      inputs (fn st2) = [(0, Input (IntTy i8) ''%x'')] \<and>
      identifiers st2 = [''%x'' \<mapsto> 0]) \<and>
   map_option (\<lambda>st. (inputs (fn st), BBs (fn st), identifiers st ''%x'', identifiers st ''%r''))
     (parse_fn_loop [] (parser_init toks_add_x_x)) =
   Some ([(0, Input (SymbolicTy SymbolicType_new) ''%x'')],
         [([], [(1, BinOp (SymbolicTy SymbolicType_new) ''%r'' 0 0 Add {}),
                (2, Return (SymbolicTy SymbolicType_new) 1)])],
         Some 0, Some 1)"
proof -
  have "identifiers ((parser_init [])\<lparr>yylval := \<lparr>num = 0, str = ''%x''\<rparr>\<rparr>)
          (str (yylval ((parser_init [])\<lparr>yylval := \<lparr>num = 0, str = ''%x''\<rparr>\<rparr>))) = None"
    by (simp add: parser_init_def)
  from parse_operand_implicit_input [OF tokenizer_next_example this, of "IntTy i8"]
  have "\<exists>st2. parse_operand (IntTy i8) (parser_init toks_x) = Some (0, st2) \<and>
      inputs (fn st2) = [(0, Input (IntTy i8) ''%x'')] \<and>
      identifiers st2 = [''%x'' \<mapsto> 0]"
    by (auto simp: parser_init_def dup_def)
  with parse_example show ?thesis by blast
qed

end
